theory Spec2Isabelle
  imports Complex_Main
begin

section \<open>Python values shared by both source files\<close>

text \<open>
  Every exception the two modules can raise is a value. The strings are the messages of
  the source's \<^verbatim>\<open>assert\<close> and \<^verbatim>\<open>raise\<close> statements.
\<close>

datatype py_error =
    AssertionError string
  | IndexError
  | KeyError string
  | ZeroDivisionError
  | ValueError
  | TypeError
  | RuntimeError string
  | AttributeError string
  | NotImplementedError string

text \<open>
  A tensor is its shape and its elements in row-major order, as a contiguous torch
  tensor stores them. The element type is left open: no claim computes with the numbers.
\<close>

record 'a tensor =
  shape :: "nat list"
  elems :: "'a list"

definition wf_tensor :: "'a tensor \<Rightarrow> bool" where
  "wf_tensor t = (length (elems t) = prod_list (shape t))"

text \<open>
  The \<open>i\<close>-th slice along the first axis: the elements of \<^verbatim>\<open>t[i]\<close> for
  \<open>0 \<le> i < shape[0]\<close>.
\<close>

definition row :: "'a tensor \<Rightarrow> nat \<Rightarrow> 'a list" where
  "row t i = take (prod_list (tl (shape t))) (drop (i * prod_list (tl (shape t))) (elems t))"

text \<open>
  \<^verbatim>\<open>t[i]\<close> for an int \<open>i\<close>: indexes the first axis, negative indices count from the
  end, a tensor of rank 0 and an index out of range raise IndexError.
\<close>

definition getitem :: "'a tensor \<Rightarrow> int \<Rightarrow> py_error + 'a tensor" where
  "getitem t i =
     (case shape t of
        [] \<Rightarrow> Inl IndexError
      | n # s \<Rightarrow>
          (let j = (if i < 0 then i + int n else i)
           in if 0 \<le> j \<and> j < int n
              then Inr \<lparr>shape = s, elems = row t (nat j)\<rparr>
              else Inl IndexError))"

text \<open>\<^verbatim>\<open>t.shape[0]\<close>: IndexError on a tensor of rank 0.\<close>

definition shape0 :: "'a tensor \<Rightarrow> py_error + nat" where
  "shape0 t = (case shape t of [] \<Rightarrow> Inl IndexError | n # _ \<Rightarrow> Inr n)"

section \<open>grl/datasets/minari\_dataset.py\<close>

subsection \<open>\<^verbatim>\<open>MinariDataset.return_range\<close>\<close>

text \<open>
  The four local variables of the loop. \<open>ep_ret\<close> is a Python float; it is modelled as
  a real (rounding is not modelled, and the lengths do not depend on it).
\<close>

record rr_state =
  returns :: "real list"
  lengths :: "nat list"
  ep_ret :: real
  ep_len :: nat

definition rr_init :: rr_state where
  "rr_init = \<lparr>returns = [], lengths = [], ep_ret = 0, ep_len = 0\<rparr>"

text \<open>One iteration of the loop body on the pair \<open>(r, d)\<close> that \<^verbatim>\<open>zip\<close> yields.\<close>

definition rr_step :: "int \<Rightarrow> rr_state \<Rightarrow> real \<times> bool \<Rightarrow> rr_state" where
  "rr_step max_episode_steps st rd =
     (let ret = ep_ret st + fst rd;
          n = ep_len st + 1
      in if snd rd \<or> int n = max_episode_steps
         then \<lparr>returns = returns st @ [ret], lengths = lengths st @ [n],
               ep_ret = 0, ep_len = 0\<rparr>
         else st\<lparr>ep_ret := ret, ep_len := n\<rparr>)"

fun rr_loop :: "int \<Rightarrow> rr_state \<Rightarrow> (real \<times> bool) list \<Rightarrow> rr_state" where
  "rr_loop m st [] = st"
| "rr_loop m st (rd # rds) = rr_loop m (rr_step m st rd) rds"

text \<open>
  The list \<open>lengths\<close> as the assertion sees it: after the loop, with the length of the
  unfinished episode appended.
\<close>

definition recorded_lengths :: "real list \<Rightarrow> bool list \<Rightarrow> int \<Rightarrow> nat list" where
  "recorded_lengths rewards terminals max_episode_steps =
     (let st = rr_loop max_episode_steps rr_init (zip rewards terminals)
      in lengths st @ [ep_len st])"

text \<open>
  \<^verbatim>\<open>min\<close> and \<^verbatim>\<open>max\<close> of an empty list raise ValueError; the assertion is checked
  before them.
\<close>

definition return_range :: "real list \<Rightarrow> bool list \<Rightarrow> int \<Rightarrow> py_error + real \<times> real" where
  "return_range rewards terminals max_episode_steps =
     (let st = rr_loop max_episode_steps rr_init (zip rewards terminals);
          ls = lengths st @ [ep_len st]
      in if sum_list ls \<noteq> length rewards then Inl (AssertionError [])
         else (case returns st of
                 [] \<Rightarrow> Inl ValueError
               | r # rs \<Rightarrow> Inr (fold min rs r, fold max rs r)))"

subsection \<open>\<^verbatim>\<open>MinariDataset.__getitem__\<close> and \<^verbatim>\<open>__len__\<close>\<close>

text \<open>
  The attributes of a dataset object. \<open>fake_actions\<close> and \<open>fake_next_actions\<close> are not
  set by \<^verbatim>\<open>__init__\<close>: the option is \<^verbatim>\<open>hasattr\<close>.
\<close>

record 'a MinariDataset =
  states :: "'a tensor"
  actions :: "'a tensor"
  rewards :: "'a tensor"
  next_states :: "'a tensor"
  is_finished :: "'a tensor"
  fake_actions :: "'a tensor option"
  fake_next_actions :: "'a tensor option"
  len :: nat

text \<open>A value of the returned dict: a tensor, or the Python float of the else branch.\<close>

datatype 'a py_value = Tensor "'a tensor" | Float real

text \<open>Python's \<^verbatim>\<open>%\<close> on ints: ZeroDivisionError on 0, else the sign of the divisor.\<close>

definition py_mod :: "int \<Rightarrow> int \<Rightarrow> py_error + int" where
  "py_mod a b = (if b = 0 then Inl ZeroDivisionError else Inr (a mod b))"

definition index_mod :: "'a tensor \<Rightarrow> int \<Rightarrow> nat \<Rightarrow> py_error + 'a py_value" where
  "index_mod t index n =
     (case py_mod index (int n) of
        Inl e \<Rightarrow> Inl e
      | Inr j \<Rightarrow> (case getitem t j of Inl e \<Rightarrow> Inl e | Inr r \<Rightarrow> Inr (Tensor r)))"

definition index_mod_opt :: "'a tensor option \<Rightarrow> int \<Rightarrow> nat \<Rightarrow> py_error + 'a py_value" where
  "index_mod_opt attr index n =
     (case attr of None \<Rightarrow> Inr (Float 0) | Some t \<Rightarrow> index_mod t index n)"

text \<open>
  The dict display evaluates its values in order, so the first failing lookup is the
  exception of the call.
\<close>

definition MinariDataset_getitem ::
  "'a MinariDataset \<Rightarrow> int \<Rightarrow> py_error + (string \<rightharpoonup> 'a py_value)" where
  "MinariDataset_getitem self index =
     (case index_mod (states self) index (len self) of Inl e \<Rightarrow> Inl e | Inr s \<Rightarrow>
      case index_mod (actions self) index (len self) of Inl e \<Rightarrow> Inl e | Inr a \<Rightarrow>
      case index_mod (rewards self) index (len self) of Inl e \<Rightarrow> Inl e | Inr r \<Rightarrow>
      case index_mod (next_states self) index (len self) of Inl e \<Rightarrow> Inl e | Inr s' \<Rightarrow>
      case index_mod (is_finished self) index (len self) of Inl e \<Rightarrow> Inl e | Inr d \<Rightarrow>
      case index_mod_opt (fake_actions self) index (len self) of Inl e \<Rightarrow> Inl e | Inr fa \<Rightarrow>
      case index_mod_opt (fake_next_actions self) index (len self) of Inl e \<Rightarrow> Inl e | Inr fa' \<Rightarrow>
        Inr (map_of [(''s'', s), (''a'', a), (''r'', r), (''s_'', s'), (''d'', d),
                     (''fake_a'', fa), (''fake_a_'', fa')]))"

definition MinariDataset_len :: "'a MinariDataset \<Rightarrow> nat" where
  "MinariDataset_len self = len self"

text \<open>
  What \<^verbatim>\<open>__init__\<close> establishes and the comments on the fake actions state: every
  attribute has \<open>len\<close> rows, \<open>len\<close> being the number of rows of \<open>states\<close>.
\<close>

definition has_rows :: "nat \<Rightarrow> 'a tensor \<Rightarrow> bool" where
  "has_rows n t = (shape t \<noteq> [] \<and> hd (shape t) = n)"

definition opt_has_rows :: "nat \<Rightarrow> 'a tensor option \<Rightarrow> bool" where
  "opt_has_rows n attr = (case attr of None \<Rightarrow> True | Some t \<Rightarrow> has_rows n t)"

definition dataset_rows :: "'a MinariDataset \<Rightarrow> bool" where
  "dataset_rows self =
     (has_rows (len self) (states self) \<and> has_rows (len self) (actions self) \<and>
      has_rows (len self) (rewards self) \<and> has_rows (len self) (next_states self) \<and>
      has_rows (len self) (is_finished self) \<and>
      opt_has_rows (len self) (fake_actions self) \<and>
      opt_has_rows (len self) (fake_next_actions self))"

text \<open>The row of a tensor at a position, as a value of the dict.\<close>

definition row_at :: "'a tensor \<Rightarrow> nat \<Rightarrow> 'a py_value" where
  "row_at t k = Tensor \<lparr>shape = tl (shape t), elems = row t k\<rparr>"

definition opt_row_at :: "'a tensor option \<Rightarrow> nat \<Rightarrow> 'a py_value" where
  "opt_row_at attr k = (case attr of None \<Rightarrow> Float 0 | Some t \<Rightarrow> row_at t k)"

section \<open>grl/generative\_models/normalizing\_flow/flow.py\<close>

subsection \<open>The torch operations the method calls\<close>

text \<open>Sequencing of calls that may raise: the first exception ends the computation.\<close>

definition bind_err :: "py_error + 'a \<Rightarrow> ('a \<Rightarrow> py_error + 'b) \<Rightarrow> py_error + 'b" where
  "bind_err m f = (case m of Inl e \<Rightarrow> Inl e | Inr v \<Rightarrow> f v)"

text \<open>
  \<^verbatim>\<open>torch.tensor(seq)\<close> on a flat sequence of ints: a tensor of rank 1. (The dtype is
  not modelled: torch makes the empty sequence a float tensor.)
\<close>

definition torch_tensor :: "int list \<Rightarrow> int tensor" where
  "torch_tensor xs = \<lparr>shape = [length xs], elems = xs\<rparr>"

text \<open>\<^verbatim>\<open>torch.prod(t)\<close>: the product of all elements.\<close>

definition torch_prod :: "int tensor \<Rightarrow> int" where
  "torch_prod t = prod_list (elems t)"

text \<open>
  \<^verbatim>\<open>*t\<close> in an argument list iterates over the first axis. A tensor of rank 0 cannot
  be iterated; the slices of a tensor of rank 2 or more are not ints, and
  \<^verbatim>\<open>reshape\<close> refuses them.
\<close>

definition unpack :: "int tensor \<Rightarrow> py_error + int list" where
  "unpack t = (case shape t of [n] \<Rightarrow> Inr (elems t) | _ \<Rightarrow> Inl TypeError)"

text \<open>A tensor passed where \<^verbatim>\<open>reshape\<close> expects an int: it must hold one element.\<close>

definition item :: "int tensor \<Rightarrow> py_error + int" where
  "item t = (case elems t of [v] \<Rightarrow> Inr v | _ \<Rightarrow> Inl TypeError)"

text \<open>
  \<^verbatim>\<open>Tensor.reshape\<close> infers at most one dimension given as \<open>-1\<close>. The scan runs over
  the requested dimensions in order, multiplying the others into \<open>newsize\<close>.
\<close>

fun scan_shape :: "int list \<Rightarrow> nat \<times> bool \<Rightarrow> py_error + nat \<times> bool" where
  "scan_shape [] acc = Inr acc"
| "scan_shape (d # ds) (newsize, inferred) =
     (if d = - 1
      then (if inferred then Inl (RuntimeError ''only one dimension can be inferred'')
            else scan_shape ds (newsize, True))
      else if 0 \<le> d then scan_shape ds (newsize * nat d, inferred)
      else Inl (RuntimeError ''invalid shape dimension''))"

definition numel :: "'a tensor \<Rightarrow> nat" where
  "numel t = prod_list (shape t)"

definition reshape :: "'a tensor \<Rightarrow> int list \<Rightarrow> py_error + 'a tensor" where
  "reshape t dims =
     (case scan_shape dims (1, False) of
        Inl e \<Rightarrow> Inl e
      | Inr (newsize, inferred) \<Rightarrow>
          if numel t = newsize \<or> (inferred \<and> 0 < newsize \<and> numel t mod newsize = 0)
          then (if inferred
                then (if newsize = 0
                      then Inl (RuntimeError ''the unspecified dimension size -1 is ambiguous'')
                      else Inr (t\<lparr>shape :=
                             map (\<lambda>d. if d = - 1 then numel t div newsize else nat d) dims\<rparr>))
                else Inr (t\<lparr>shape := map nat dims\<rparr>))
          else Inl (RuntimeError ''shape is invalid for input size''))"

text \<open>
  \<^verbatim>\<open>Tensor.squeeze(dim)\<close>: the axis is removed when its size is 1, the tensor is
  returned as it is otherwise; a dimension out of range raises IndexError.
\<close>

definition squeeze :: "'a tensor \<Rightarrow> int \<Rightarrow> py_error + 'a tensor" where
  "squeeze t ax =
     (let r = int (length (shape t));
          lo = (if r = 0 then - 1 else - r);
          hi = (if r = 0 then 0 else r - 1)
      in if ax < lo \<or> hi < ax then Inl IndexError
         else (let j = nat (if ax < 0 then ax + r else ax)
               in if j < length (shape t) \<and> shape t ! j = 1
                  then Inr (t\<lparr>shape := take j (shape t) @ drop (Suc j) (shape t)\<rparr>)
                  else Inr t))"

text \<open>
  \<^verbatim>\<open>torch.repeat_interleave(t, repeats, dim=0)\<close> with one repeat count: every slice
  along the first axis is written \<open>repeats\<close> times in a row.
\<close>

definition repeat_interleave :: "'a tensor \<Rightarrow> int \<Rightarrow> py_error + 'a tensor" where
  "repeat_interleave t repeats =
     (case shape t of
        [] \<Rightarrow> Inl IndexError
      | n # s \<Rightarrow>
          if repeats < 0 then Inl (RuntimeError ''repeats can not be negative'')
          else Inr \<lparr>shape = (n * nat repeats) # s,
                    elems = concat (map (\<lambda>i. concat (replicate (nat repeats) (row t i)))
                                     [0..<n])\<rparr>)"

subsection \<open>The objects of the method\<close>

text \<open>
  What a solver returns and what the Gaussian generator draws: a torch tensor, a
  TensorDict, a treetensor (its keys in order, each with a tensor) or anything else.
\<close>

datatype 'a data =
    TorchTensor "'a tensor"
  | TensorDictData
  | TreeTensor "(string \<times> 'a tensor) list"
  | OtherData

datatype data_shape = TensorShape "nat list" | TreeShape "(string \<times> nat list) list" | NoShape

definition shape_of :: "'a data \<Rightarrow> data_shape" where
  "shape_of x =
     (case x of
        TorchTensor t \<Rightarrow> TensorShape (shape t)
      | TreeTensor kvs \<Rightarrow> TreeShape (map (\<lambda>kv. (fst kv, shape (snd kv))) kvs)
      | _ \<Rightarrow> NoShape)"

text \<open>\<^verbatim>\<open>config.x_size\<close>: an int, a tuple, list or \<^verbatim>\<open>torch.Size\<close>, a mapping, or else.\<close>

datatype x_size =
    XInt int
  | XSeq "int list"
  | XDict "(string \<times> x_size) list"
  | XOther

text \<open>The \<^verbatim>\<open>batch_size\<close> argument when it is not \<^verbatim>\<open>None\<close>.\<close>

datatype batch_size = BInt int | BSeq "int list" | BOther

text \<open>
  Modelled from the spec: \<^verbatim>\<open>find_parameters\<close> of \<^verbatim>\<open>grl.utils\<close> is not among the
  sources; it returns "the full parameter list of the underlying model". The model
  is represented by that list.
\<close>

datatype 'p IntrinsicModel = IntrinsicModel (parameters: "'p list")

definition find_parameters :: "'p IntrinsicModel \<Rightarrow> 'p list" where
  "find_parameters m = parameters m"

text \<open>
  The drift handed to the solver: the closure over the model and the condition of the
  first path, or the \<^verbatim>\<open>.drift\<close> of \<^verbatim>\<open>diffusion_process.reverse_ode(...)\<close> with its
  function type and condition.
\<close>

datatype 'a drift =
    ModelDrift "'a tensor option"
  | ReverseOdeDrift string string "'a tensor option"

text \<open>
  One call of \<^verbatim>\<open>solver.integrate\<close>: its keyword arguments (\<open>None\<close> for one the call
  does not pass) and whether it stands under \<^verbatim>\<open>torch.no_grad()\<close>.
\<close>

record ('a, 'p) integrate_call =
  drift :: "'a drift"
  x0 :: "'a data"
  call_t_span :: "'a tensor option"
  adjoint_params :: "'p list option"
  call_batch_size :: "int option"
  call_x_size :: "data_shape option"
  no_grad :: bool

text \<open>
  The solver classes the method tells apart with \<^verbatim>\<open>isinstance\<close>; each carries its
  \<^verbatim>\<open>integrate\<close>, which is not among the sources.
\<close>

datatype ('a, 'p) solver =
    ODESolver "('a, 'p) integrate_call \<Rightarrow> py_error + 'a data"
  | DictTensorODESolver "('a, 'p) integrate_call \<Rightarrow> py_error + 'a data"
  | OtherSolver

record 'k solver_config =
  solver_type :: string
  solver_args :: 'k

text \<open>
  The construction config. An option is \<^verbatim>\<open>hasattr\<close>. \<open>cfg_model\<close> stands for the
  \<^verbatim>\<open>IntrinsicModel(config.model)\<close> that the constructor builds.
\<close>

record ('p, 'k) config =
  cfg_x_size :: x_size
  cfg_device :: string
  cfg_use_tree_tensor :: "bool option"
  cfg_model :: "'p IntrinsicModel"
  cfg_solver :: "'k solver_config option"

text \<open>
  The functions of the repository that the class imports and that are not among the
  sources: the solver registry (\<^verbatim>\<open>get_solver(type)(**args)\<close>) and the factory of the
  Gaussian generator.
\<close>

record ('a, 'p, 'k) externals =
  get_solver :: "string \<Rightarrow> 'k \<Rightarrow> py_error + ('a, 'p) solver"
  gaussian_random_variable :: "x_size \<Rightarrow> string \<Rightarrow> bool \<Rightarrow> int \<Rightarrow> py_error + 'a data"

text \<open>
  The attributes of a \<^verbatim>\<open>FlowModel\<close>. \<^verbatim>\<open>__init__\<close> sets \<open>solver\<close> only when the config
  has one, and sets neither \<open>diffusion_process\<close> nor \<open>model_type\<close>, which the second
  solver path reads.
\<close>

record ('a, 'p, 'k) FlowModel =
  config :: "('p, 'k) config"
  x_size :: x_size
  device :: string
  gaussian_generator :: "int \<Rightarrow> py_error + 'a data"
  model :: "'p IntrinsicModel"
  solver :: "('a, 'p) solver option"
  diffusion_process :: "string option"
  model_type :: "string option"

definition FlowModel_init ::
  "('a, 'p, 'k) externals \<Rightarrow> ('p, 'k) config \<Rightarrow> py_error + ('a, 'p, 'k) FlowModel" where
  "FlowModel_init ext cfg =
     (let gen = gaussian_random_variable ext (cfg_x_size cfg) (cfg_device cfg)
                  (case cfg_use_tree_tensor cfg of Some b \<Rightarrow> b | None \<Rightarrow> False);
          self = \<lparr>config = cfg, x_size = cfg_x_size cfg, device = cfg_device cfg,
                  gaussian_generator = gen, model = cfg_model cfg, solver = None,
                  diffusion_process = None, model_type = None\<rparr>
      in case cfg_solver cfg of
           None \<Rightarrow> Inr self
         | Some sc \<Rightarrow>
             bind_err (get_solver ext (solver_type sc) (solver_args sc))
               (\<lambda>s. Inr (self\<lparr>solver := Some s\<rparr>)))"

text \<open>
  The arguments of \<^verbatim>\<open>sample\<close> and \<^verbatim>\<open>sample_forward_process\<close>. \<open>x_0\<close> and
  \<open>condition\<close> are torch tensors here (the method's own comments leave the other
  representations to be done).
\<close>

record ('a, 'k) args =
  t_span :: "'a tensor option"
  batch_size :: "batch_size option"
  x_0 :: "'a tensor option"
  condition :: "'a tensor option"
  with_grad :: bool
  solver_config :: "'k solver_config option"

subsection \<open>\<^verbatim>\<open>FlowModel.sample_forward_process\<close>, statement by statement\<close>

text \<open>Lines 110 to 122.\<close>

definition extra_batch_size :: "batch_size option \<Rightarrow> py_error + int tensor" where
  "extra_batch_size b =
     (case b of
        None \<Rightarrow> Inr (torch_tensor [1])
      | Some (BInt n) \<Rightarrow> Inr (torch_tensor [n])
      | Some (BSeq ns) \<Rightarrow> Inr (torch_tensor ns)
      | Some BOther \<Rightarrow> Inl (AssertionError ''Invalid batch size''))"

text \<open>Lines 124 to 134.\<close>

definition data_batch_size ::
  "'a tensor option \<Rightarrow> 'a tensor option \<Rightarrow> py_error + nat" where
  "data_batch_size x c =
     (case (x, c) of
        (Some xt, Some ct) \<Rightarrow>
          bind_err (shape0 xt) (\<lambda>n. bind_err (shape0 ct) (\<lambda>m.
            if n = m then shape0 xt
            else Inl (AssertionError
                   ''The batch size of x_0 and condition must be the same'')))
      | (Some xt, None) \<Rightarrow> shape0 xt
      | (None, Some ct) \<Rightarrow> shape0 ct
      | (None, None) \<Rightarrow> Inr 1)"

text \<open>Lines 136 to 142.\<close>

definition select_solver ::
  "('a, 'p, 'k) externals \<Rightarrow> ('a, 'p, 'k) FlowModel \<Rightarrow> 'k solver_config option
     \<Rightarrow> py_error + ('a, 'p) solver" where
  "select_solver ext self sc =
     (case sc of
        Some c \<Rightarrow> get_solver ext (solver_type c) (solver_args c)
      | None \<Rightarrow>
          (case solver self of
             None \<Rightarrow> Inl (AssertionError
                      ''solver must be specified in config or solver_config'')
           | Some s \<Rightarrow> Inr s))"

text \<open>Lines 150 to 163: the assertions on the shape of \<^verbatim>\<open>x_0[0]\<close>.\<close>

definition check_x_0 :: "x_size \<Rightarrow> 'a tensor \<Rightarrow> py_error + unit" where
  "check_x_0 xs x =
     (case xs of
        XInt d \<Rightarrow>
          bind_err (getitem x 0) (\<lambda>r.
            if [d] = map int (shape r) then Inr ()
            else Inl (AssertionError ''The shape of x_0 must be the same as the x_size''))
      | XSeq ds \<Rightarrow>
          bind_err (getitem x 0) (\<lambda>r.
            if ds = map int (shape r) then Inr ()
            else Inl (AssertionError ''The shape of x_0 must be the same as the x_size''))
      | _ \<Rightarrow> Inl (AssertionError ''Invalid x_size''))"

text \<open>Lines 144 to 166: the initial state \<open>x\<close>.\<close>

definition initial_state ::
  "('a, 'p, 'k) FlowModel \<Rightarrow> int tensor \<Rightarrow> nat \<Rightarrow> 'a tensor option \<Rightarrow> py_error + 'a data" where
  "initial_state self e n x =
     (case x of
        None \<Rightarrow> gaussian_generator self (torch_prod e * int n)
      | Some xt \<Rightarrow>
          bind_err (check_x_0 (x_size self) xt) (\<lambda>_.
          bind_err (repeat_interleave xt (torch_prod e)) (\<lambda>r. Inr (TorchTensor r))))"

text \<open>Lines 168 to 172.\<close>

definition expand_condition ::
  "int tensor \<Rightarrow> 'a tensor option \<Rightarrow> py_error + 'a tensor option" where
  "expand_condition e c =
     (case c of
        None \<Rightarrow> Inr None
      | Some ct \<Rightarrow> bind_err (repeat_interleave ct (torch_prod e)) (\<lambda>r. Inr (Some r)))"

text \<open>
  Lines 174 to 224: the call of \<^verbatim>\<open>solver.integrate\<close> that the method makes, with the
  function it is made on. The second path reads \<^verbatim>\<open>self.diffusion_process\<close> and then
  \<^verbatim>\<open>self.model_type\<close>; the last branch formats \<^verbatim>\<open>self.config.solver.type\<close>.
\<close>

definition solver_call ::
  "('a, 'p, 'k) FlowModel \<Rightarrow> ('a, 'p) solver \<Rightarrow> 'a data \<Rightarrow> 'a tensor option
     \<Rightarrow> 'a tensor option \<Rightarrow> bool \<Rightarrow> int tensor \<Rightarrow> nat
     \<Rightarrow> py_error + (('a, 'p) integrate_call \<Rightarrow> py_error + 'a data) \<times> ('a, 'p) integrate_call" where
  "solver_call self s x c ts grad e n =
     (case s of
        ODESolver integrate \<Rightarrow>
          Inr (integrate,
               \<lparr>drift = ModelDrift c, x0 = x, call_t_span = ts,
                adjoint_params = Some (find_parameters (model self)),
                call_batch_size = None, call_x_size = None, no_grad = (\<not> grad)\<rparr>)
      | DictTensorODESolver integrate \<Rightarrow>
          (case diffusion_process self of
             None \<Rightarrow> Inl (AttributeError ''diffusion_process'')
           | Some dp \<Rightarrow>
               (case model_type self of
                  None \<Rightarrow> Inl (AttributeError ''model_type'')
                | Some mt \<Rightarrow>
                    Inr (integrate,
                         \<lparr>drift = ReverseOdeDrift dp mt c, x0 = x, call_t_span = ts,
                          adjoint_params = None,
                          call_batch_size = Some (torch_prod e * int n),
                          call_x_size = Some (shape_of x), no_grad = (\<not> grad)\<rparr>)))
      | OtherSolver \<Rightarrow>
          (case cfg_solver (config self) of
             None \<Rightarrow> Inl (AttributeError ''solver'')
           | Some sc \<Rightarrow>
               Inl (NotImplementedError
                      (''Solver type '' @ solver_type sc @ '' is not implemented''))))"

text \<open>
  Lines 107 to 224 together: everything up to the call of the solver. The result is
  the extra batch size, the data batch size and the call.
\<close>

definition prepare ::
  "('a, 'p, 'k) externals \<Rightarrow> ('a, 'p, 'k) FlowModel \<Rightarrow> ('a, 'k) args
     \<Rightarrow> py_error + int tensor \<times> nat \<times>
          (('a, 'p) integrate_call \<Rightarrow> py_error + 'a data) \<times> ('a, 'p) integrate_call" where
  "prepare ext self a =
     bind_err (extra_batch_size (batch_size a)) (\<lambda>e.
     bind_err (data_batch_size (x_0 a) (condition a)) (\<lambda>n.
     bind_err (select_solver ext self (solver_config a)) (\<lambda>s.
     bind_err (initial_state self e n (x_0 a)) (\<lambda>x.
     bind_err (expand_condition e (condition a)) (\<lambda>c.
     bind_err (solver_call self s x c (t_span a) (with_grad a) e n) (\<lambda>fc.
       Inr (e, n, fc)))))))"

text \<open>
  Lines 228 to 257 (and 278 to 307): the arguments of \<^verbatim>\<open>reshape\<close>, in the branch
  for an extra batch size of rank 0 and in the other branch.
\<close>

definition reshape_dims_rank0 :: "int tensor \<Rightarrow> nat \<Rightarrow> x_size \<Rightarrow> py_error + int list" where
  "reshape_dims_rank0 e n xs =
     (case xs of
        XInt d \<Rightarrow> bind_err (item e) (\<lambda>b. Inr [- 1, b, int n, d])
      | XSeq ds \<Rightarrow> bind_err (item e) (\<lambda>b. Inr ([- 1, b, int n] @ ds))
      | _ \<Rightarrow> Inl (AssertionError ''Invalid x_size''))"

definition reshape_dims_unpacked :: "int tensor \<Rightarrow> nat \<Rightarrow> x_size \<Rightarrow> py_error + int list" where
  "reshape_dims_unpacked e n xs =
     (case xs of
        XInt d \<Rightarrow> bind_err (unpack e) (\<lambda>bs. Inr ([- 1] @ bs @ [int n, d]))
      | XSeq ds \<Rightarrow> bind_err (unpack e) (\<lambda>bs. Inr ([- 1] @ bs @ [int n] @ ds))
      | _ \<Rightarrow> Inl (AssertionError ''Invalid x_size''))"

definition reshape_dims :: "int tensor \<Rightarrow> nat \<Rightarrow> x_size \<Rightarrow> py_error + int list" where
  "reshape_dims e n xs =
     (if length (shape e) = 0 then reshape_dims_rank0 e n xs
      else reshape_dims_unpacked e n xs)"

text \<open>Lines 260 to 273 (and 310 to 323): the squeezes.\<close>

definition squeeze_dims ::
  "batch_size option \<Rightarrow> bool \<Rightarrow> int tensor \<Rightarrow> 'a tensor \<Rightarrow> py_error + 'a tensor" where
  "squeeze_dims b no_data e d =
     (case b of
        None \<Rightarrow>
          if no_data then bind_err (squeeze d 1) (\<lambda>d'. squeeze d' 1)
          else squeeze d 1
      | Some _ \<Rightarrow>
          if no_data then squeeze d (1 + int (length (shape e)))
          else Inr d)"

definition inverse_tensor ::
  "x_size \<Rightarrow> ('a, 'k) args \<Rightarrow> int tensor \<Rightarrow> nat \<Rightarrow> 'a tensor \<Rightarrow> py_error + 'a tensor" where
  "inverse_tensor xs a e n d =
     bind_err (reshape_dims e n xs) (\<lambda>dims.
     bind_err (reshape d dims) (\<lambda>d'.
       squeeze_dims (batch_size a) (x_0 a = None \<and> condition a = None) e d'))"

text \<open>\<^verbatim>\<open>self.x_size[key]\<close> in the loop over the keys of a treetensor.\<close>

definition x_size_item :: "x_size \<Rightarrow> string \<Rightarrow> py_error + x_size" where
  "x_size_item xs key =
     (case xs of
        XDict kvs \<Rightarrow> (case map_of kvs key of None \<Rightarrow> Inl (KeyError key) | Some v \<Rightarrow> Inr v)
      | _ \<Rightarrow> Inl TypeError)"

fun inverse_tree ::
  "x_size \<Rightarrow> ('a, 'k) args \<Rightarrow> int tensor \<Rightarrow> nat \<Rightarrow> (string \<times> 'a tensor) list
     \<Rightarrow> py_error + (string \<times> 'a tensor) list" where
  "inverse_tree xs a e n [] = Inr []"
| "inverse_tree xs a e n ((key, d) # kvs) =
     bind_err (x_size_item xs key) (\<lambda>xk.
     bind_err (inverse_tensor xk a e n d) (\<lambda>d'.
     bind_err (inverse_tree xs a e n kvs) (\<lambda>kvs'. Inr ((key, d') # kvs'))))"

text \<open>Lines 226 to 327.\<close>

definition inverse_composition ::
  "('a, 'p, 'k) FlowModel \<Rightarrow> ('a, 'k) args \<Rightarrow> int tensor \<Rightarrow> nat \<Rightarrow> 'a data
     \<Rightarrow> py_error + 'a data" where
  "inverse_composition self a e n dat =
     (case dat of
        TorchTensor d \<Rightarrow>
          bind_err (inverse_tensor (x_size self) a e n d) (\<lambda>d'. Inr (TorchTensor d'))
      | TensorDictData \<Rightarrow> Inl (NotImplementedError ''Not implemented'')
      | TreeTensor kvs \<Rightarrow>
          bind_err (inverse_tree (x_size self) a e n kvs) (\<lambda>kvs'. Inr (TreeTensor kvs'))
      | OtherData \<Rightarrow> Inl (NotImplementedError ''Not implemented''))"

definition sample_forward_process ::
  "('a, 'p, 'k) externals \<Rightarrow> ('a, 'p, 'k) FlowModel \<Rightarrow> ('a, 'k) args \<Rightarrow> py_error + 'a data" where
  "sample_forward_process ext self a =
     bind_err (prepare ext self a) (\<lambda>(e, n, integrate, call).
     bind_err (integrate call) (\<lambda>dat.
       inverse_composition self a e n dat))"

subsection \<open>\<^verbatim>\<open>FlowModel.sample\<close>\<close>

text \<open>
  \<^verbatim>\<open>data[-1]\<close> on what \<^verbatim>\<open>sample_forward_process\<close> can return: a tensor is indexed
  along its first axis, a treetensor key by key.
\<close>

fun tree_getitem :: "(string \<times> 'a tensor) list \<Rightarrow> int \<Rightarrow> py_error + (string \<times> 'a tensor) list" where
  "tree_getitem [] i = Inr []"
| "tree_getitem ((key, d) # kvs) i =
     bind_err (getitem d i) (\<lambda>d'.
     bind_err (tree_getitem kvs i) (\<lambda>kvs'. Inr ((key, d') # kvs')))"

definition data_getitem :: "'a data \<Rightarrow> int \<Rightarrow> py_error + 'a data" where
  "data_getitem dat i =
     (case dat of
        TorchTensor d \<Rightarrow> bind_err (getitem d i) (\<lambda>d'. Inr (TorchTensor d'))
      | TreeTensor kvs \<Rightarrow> bind_err (tree_getitem kvs i) (\<lambda>kvs'. Inr (TreeTensor kvs'))
      | _ \<Rightarrow> Inl TypeError)"

definition sample ::
  "('a, 'p, 'k) externals \<Rightarrow> ('a, 'p, 'k) FlowModel \<Rightarrow> ('a, 'k) args \<Rightarrow> py_error + 'a data" where
  "sample ext self a =
     bind_err (sample_forward_process ext self a) (\<lambda>dat. data_getitem dat (- 1))"

section \<open>Notions of the specification\<close>

text \<open>
  The element of a trajectory at its last time index: the last slice along the first
  axis.
\<close>

definition last_snapshot :: "'a tensor \<Rightarrow> 'a tensor" where
  "last_snapshot d = \<lparr>shape = tl (shape d), elems = row d (hd (shape d) - 1)\<rparr>"

text \<open>The condition that the drift of a call of the solver evaluates the model on.\<close>

definition drift_condition :: "'a drift \<Rightarrow> 'a tensor option" where
  "drift_condition dr = (case dr of ModelDrift c \<Rightarrow> c | ReverseOdeDrift _ _ c \<Rightarrow> c)"

text \<open>
  Modelled from the spec: \<^verbatim>\<open>solver.integrate\<close> is not among the sources. Its
  trajectory is an "ordered sequence (over integration time steps, length =
  \<^verbatim>\<open>len(t_span)\<close>) of State snapshots", each of the shape of the initial state
  "immediately after integration".
\<close>

definition is_trajectory :: "nat \<Rightarrow> 'a data \<Rightarrow> py_error + 'a data \<Rightarrow> bool" where
  "is_trajectory T x res =
     (case (x, res) of
        (TorchTensor xt, Inr (TorchTensor d)) \<Rightarrow> shape d = T # shape xt
      | _ \<Rightarrow> False)"

text \<open>
  Modelled from the spec: the Gaussian generator is not among the sources;
  \<^verbatim>\<open>gaussian_generator(batch_size: int)\<close> returns a "State of the engine's configured
  \<^verbatim>\<open>state_shape\<close>", here \<open>(D,)\<close>, for every sample of the batch.
\<close>

definition draws :: "nat \<Rightarrow> int \<Rightarrow> py_error + 'a data \<Rightarrow> bool" where
  "draws D k res =
     (case res of Inr (TorchTensor g) \<Rightarrow> shape g = [nat k, D] | _ \<Rightarrow> False)"

text \<open>
  The solver that the method ends up calling: the \<^verbatim>\<open>integrate\<close> of a solver of the
  first class, or of the second class on an object that has the two attributes the
  second path reads.
\<close>

definition integrates_with ::
  "('a, 'p, 'k) FlowModel \<Rightarrow> ('a, 'p) solver
     \<Rightarrow> (('a, 'p) integrate_call \<Rightarrow> py_error + 'a data) \<Rightarrow> bool" where
  "integrates_with self s integrate =
     (case s of
        ODESolver f \<Rightarrow> f = integrate
      | DictTensorODESolver f \<Rightarrow>
          f = integrate \<and> diffusion_process self \<noteq> None \<and> model_type self \<noteq> None
      | OtherSolver \<Rightarrow> False)"

text \<open>
  The regimes of the specification's table in which data is given: \<^verbatim>\<open>x_0\<close> with \<open>N\<close>
  rows of the state shape \<open>(D,)\<close>, with or without a condition of \<open>N\<close> rows, or a
  condition of \<open>N\<close> rows alone.
\<close>

definition rows_given :: "('a, 'k) args \<Rightarrow> nat \<Rightarrow> nat \<Rightarrow> bool" where
  "rows_given a N D =
     (case (x_0 a, condition a) of
        (Some xt, None) \<Rightarrow> shape xt = [N, D]
      | (Some xt, Some ct) \<Rightarrow> shape xt = [N, D] \<and> shape0 ct = Inr N
      | (None, Some ct) \<Rightarrow> shape0 ct = Inr N
      | (None, None) \<Rightarrow> False)"

section \<open>Concrete inputs\<close>

text \<open>A dataset of two transitions to which no fake actions were attached.\<close>

definition two_transitions :: "nat MinariDataset" where
  "two_transitions =
     \<lparr>states = \<lparr>shape = [2, 2], elems = [1, 2, 3, 4]\<rparr>,
      actions = \<lparr>shape = [2, 1], elems = [5, 6]\<rparr>,
      rewards = \<lparr>shape = [2, 1], elems = [7, 8]\<rparr>,
      next_states = \<lparr>shape = [2, 2], elems = [3, 4, 9, 10]\<rparr>,
      is_finished = \<lparr>shape = [2, 1], elems = [0, 1]\<rparr>,
      fake_actions = None, fake_next_actions = None, len = 2\<rparr>"

text \<open>
  A solver for the examples: the state at step \<open>t\<close> is the initial state with
  \<open>t\<close> added to every element, for the \<open>T\<close> entries of \<open>t_span\<close>.
\<close>

fun unit_steps :: "nat \<Rightarrow> nat \<Rightarrow> nat list \<Rightarrow> nat list" where
  "unit_steps t 0 xs = []"
| "unit_steps t (Suc k) xs = map (\<lambda>v. v + t) xs @ unit_steps (Suc t) k xs"

definition unit_drift :: "(nat, nat) integrate_call \<Rightarrow> py_error + nat data" where
  "unit_drift call =
     (case (x0 call, call_t_span call) of
        (TorchTensor x, Some ts) \<Rightarrow>
          (case shape ts of
             [T] \<Rightarrow> Inr (TorchTensor \<lparr>shape = T # shape x,
                                        elems = unit_steps 0 T (elems x)\<rparr>)
           | _ \<Rightarrow> Inl (RuntimeError ''t_span''))
      | _ \<Rightarrow> Inl TypeError)"

text \<open>A generator for the examples: a batch of zeros.\<close>

definition zeros :: "x_size \<Rightarrow> string \<Rightarrow> bool \<Rightarrow> int \<Rightarrow> py_error + nat data" where
  "zeros xs dev tree k =
     (case xs of
        XInt d \<Rightarrow>
          if k < 0 \<or> d < 0 then Inl (RuntimeError ''negative dimension'')
          else Inr (TorchTensor \<lparr>shape = [nat k, nat d],
                                   elems = replicate (nat k * nat d) 0\<rparr>)
      | _ \<Rightarrow> Inl TypeError)"

definition registry :: "(nat, nat, unit) externals" where
  "registry =
     \<lparr>get_solver = (\<lambda>ty _. if ty = ''ode'' then Inr (ODESolver unit_drift)
                           else if ty = ''dict'' then Inr (DictTensorODESolver unit_drift)
                           else Inl (KeyError ty)),
      gaussian_random_variable = zeros\<rparr>"

definition config_without_solver :: "(nat, unit) config" where
  "config_without_solver =
     \<lparr>cfg_x_size = XInt 2, cfg_device = ''cpu'', cfg_use_tree_tensor = None,
      cfg_model = IntrinsicModel [10, 11], cfg_solver = None\<rparr>"

definition config_ode :: "(nat, unit) config" where
  "config_ode =
     config_without_solver\<lparr>cfg_solver := Some \<lparr>solver_type = ''ode'', solver_args = ()\<rparr>\<rparr>"

definition config_dict :: "(nat, unit) config" where
  "config_dict =
     config_without_solver\<lparr>cfg_solver := Some \<lparr>solver_type = ''dict'', solver_args = ()\<rparr>\<rparr>"

text \<open>The objects that \<^verbatim>\<open>__init__\<close> builds from these configs.\<close>

definition flow_without_solver :: "(nat, nat, unit) FlowModel" where
  "flow_without_solver =
     \<lparr>config = config_without_solver, x_size = XInt 2, device = ''cpu'',
      gaussian_generator = zeros (XInt 2) ''cpu'' False, model = IntrinsicModel [10, 11],
      solver = None, diffusion_process = None, model_type = None\<rparr>"

definition flow_ode :: "(nat, nat, unit) FlowModel" where
  "flow_ode = flow_without_solver\<lparr>config := config_ode, solver := Some (ODESolver unit_drift)\<rparr>"

definition flow_dict :: "(nat, nat, unit) FlowModel" where
  "flow_dict =
     flow_without_solver\<lparr>config := config_dict,
                           solver := Some (DictTensorODESolver unit_drift)\<rparr>"

text \<open>Three time steps; two samples of shape \<open>(2,)\<close>; three conditions.\<close>

definition three_steps :: "nat tensor" where
  "three_steps = \<lparr>shape = [3], elems = [0, 1, 2]\<rparr>"

definition two_samples :: "nat tensor" where
  "two_samples = \<lparr>shape = [2, 2], elems = [1, 2, 3, 4]\<rparr>"

definition two_conditions :: "nat tensor" where
  "two_conditions = \<lparr>shape = [2, 1], elems = [7, 8]\<rparr>"

definition three_conditions :: "nat tensor" where
  "three_conditions = \<lparr>shape = [3, 1], elems = [7, 8, 9]\<rparr>"

definition call_args ::
  "batch_size option \<Rightarrow> nat tensor option \<Rightarrow> nat tensor option \<Rightarrow> bool \<Rightarrow> (nat, unit) args" where
  "call_args b x c g =
     \<lparr>t_span = Some three_steps, batch_size = b, x_0 = x, condition = c, with_grad = g,
      solver_config = None\<rparr>"

section \<open>Sequencing\<close>

lemma bind_err_Inl [simp]: "bind_err (Inl e) f = Inl e"
  by (simp add: bind_err_def)

lemma bind_err_Inr [simp]: "bind_err (Inr v) f = f v"
  by (simp add: bind_err_def)

lemma bind_err_eq_Inr: "bind_err m f = Inr v \<longleftrightarrow> (\<exists>u. m = Inr u \<and> f u = Inr v)"
  by (cases m) simp_all

lemma bind_err_eq_Inl:
  "bind_err m f = Inl e \<longleftrightarrow> m = Inl e \<or> (\<exists>u. m = Inr u \<and> f u = Inl e)"
  by (cases m) simp_all

section \<open>Properties of the dataset module\<close>

lemma rr_step_total: "sum_list (lengths (rr_step m st rd)) + ep_len (rr_step m st rd)
    = sum_list (lengths st) + ep_len st + 1"
  by (simp add: rr_step_def Let_def)

lemma rr_loop_total: "sum_list (lengths (rr_loop m st rds)) + ep_len (rr_loop m st rds)
    = sum_list (lengths st) + ep_len st + length rds"
proof (induction rds arbitrary: st)
  case Nil
  show ?case by simp
next
  case (Cons rd rds)
  show ?case by (simp add: Cons.IH rr_step_total)
qed

lemma recorded_lengths_zip:
  "sum_list (recorded_lengths rs ds m) = min (length rs) (length ds)"
  using rr_loop_total [of m rr_init "zip rs ds"]
  by (simp add: recorded_lengths_def Let_def rr_init_def)

lemma index_mod_row:
  assumes "has_rows n t" and "0 < n"
  shows "index_mod t index n = Inr (row_at t (nat (index mod int n)))"
proof -
  obtain s where sh: "shape t = n # s"
    using assms(1) by (cases "shape t") (auto simp: has_rows_def)
  define j where "j = index mod int n"
  have j: "0 \<le> j" "j < int n" "int n \<noteq> 0"
    using assms(2) by (simp_all add: j_def)
  have "index_mod t index n =
          (case getitem t j of Inl e \<Rightarrow> Inl e | Inr r \<Rightarrow> Inr (Tensor r))"
    using j(3) by (simp add: index_mod_def py_mod_def j_def)
  also have "getitem t j = Inr \<lparr>shape = s, elems = row t (nat j)\<rparr>"
    using j(1,2) by (simp add: getitem_def sh)
  finally show ?thesis
    by (simp add: row_at_def sh j_def)
qed

lemma index_mod_opt_row:
  assumes "opt_has_rows n attr" and "0 < n"
  shows "index_mod_opt attr index n = Inr (opt_row_at attr (nat (index mod int n)))"
  using assms
  by (cases attr)
     (simp_all add: index_mod_opt_def opt_row_at_def opt_has_rows_def index_mod_row)

text \<open>
  Claim C8. In \<^verbatim>\<open>return_range\<close>, for rewards and terminal flags of one dataset (a
  flag for every reward), whatever \<^verbatim>\<open>max_episode_steps\<close> is: the lengths recorded
  at every terminal flag and every \<^verbatim>\<open>max_episode_steps\<close> ticks, together with the
  length of the unfinished last episode, add up to the number of rewards, so the
  assertion of the function does not fail.
\<close>

theorem return_range_lengths_sum:
  assumes "length rs \<le> length ds"
  shows "sum_list (recorded_lengths rs ds m) = length rs
       \<and> return_range rs ds m \<noteq> Inl (AssertionError [])"
proof -
  have total: "sum_list (recorded_lengths rs ds m) = length rs"
    using assms by (simp add: recorded_lengths_zip)
  then have "sum_list (lengths (rr_loop m rr_init (zip rs ds))
               @ [ep_len (rr_loop m rr_init (zip rs ds))]) = length rs"
    by (simp add: recorded_lengths_def Let_def)
  then have "return_range rs ds m \<noteq> Inl (AssertionError [])"
    by (simp add: return_range_def Let_def split: list.splits)
  with total show ?thesis by simp
qed

theorem return_range_lengths_sum_witness:
  "length [1, 2, 3, 4 :: real] \<le> length [False, False, True, False]
   \<and> recorded_lengths [1, 2, 3, 4] [False, False, True, False] 2 = [2, 1, 1]
   \<and> sum_list (recorded_lengths [1, 2, 3, 4] [False, False, True, False] 2)
       = length [1, 2, 3, 4 :: real]
   \<and> return_range [1, 2, 3, 4] [False, False, True, False] 2 = Inr (3, 3)"
  using return_range_lengths_sum [of "[1, 2, 3, 4]" "[False, False, True, False]" 2]
  by (simp add: recorded_lengths_def return_range_def rr_init_def rr_step_def Let_def)

text \<open>
  Claim C10. On a dataset with at least one row whose attributes all have \<open>len\<close>
  rows, \<^verbatim>\<open>__getitem__\<close> raises nothing, whatever the index: every entry of the
  returned dict is the row at position \<open>index % len\<close>, which for a non-negative index
  is the remainder of the index and lies below \<^verbatim>\<open>len(dataset)\<close> also when the index
  does not; and the entries \<^verbatim>\<open>fake_a\<close> and \<^verbatim>\<open>fake_a_\<close> are the float 0.0 when the
  attribute was never attached.
\<close>

theorem getitem_wraps_index:
  assumes "dataset_rows self" and "0 < len self"
  shows "MinariDataset_getitem self index =
           Inr (map_of
             [(''s'', row_at (states self) (nat (index mod int (len self)))),
              (''a'', row_at (actions self) (nat (index mod int (len self)))),
              (''r'', row_at (rewards self) (nat (index mod int (len self)))),
              (''s_'', row_at (next_states self) (nat (index mod int (len self)))),
              (''d'', row_at (is_finished self) (nat (index mod int (len self)))),
              (''fake_a'',
                 opt_row_at (fake_actions self) (nat (index mod int (len self)))),
              (''fake_a_'',
                 opt_row_at (fake_next_actions self) (nat (index mod int (len self))))])
         \<and> (0 \<le> index \<longrightarrow> nat (index mod int (len self)) = nat index mod len self)
         \<and> nat (index mod int (len self)) < MinariDataset_len self
         \<and> (fake_actions self = None \<longrightarrow>
              opt_row_at (fake_actions self) (nat (index mod int (len self))) = Float 0)
         \<and> (fake_next_actions self = None \<longrightarrow>
              opt_row_at (fake_next_actions self) (nat (index mod int (len self)))
                = Float 0)"
proof -
  have rows: "has_rows (len self) (states self)" "has_rows (len self) (actions self)"
    "has_rows (len self) (rewards self)" "has_rows (len self) (next_states self)"
    "has_rows (len self) (is_finished self)" "opt_has_rows (len self) (fake_actions self)"
    "opt_has_rows (len self) (fake_next_actions self)"
    using assms(1) by (simp_all add: dataset_rows_def)
  have dict: "MinariDataset_getitem self index =
           Inr (map_of
             [(''s'', row_at (states self) (nat (index mod int (len self)))),
              (''a'', row_at (actions self) (nat (index mod int (len self)))),
              (''r'', row_at (rewards self) (nat (index mod int (len self)))),
              (''s_'', row_at (next_states self) (nat (index mod int (len self)))),
              (''d'', row_at (is_finished self) (nat (index mod int (len self)))),
              (''fake_a'',
                 opt_row_at (fake_actions self) (nat (index mod int (len self)))),
              (''fake_a_'',
                 opt_row_at (fake_next_actions self) (nat (index mod int (len self))))])"
    unfolding MinariDataset_getitem_def
    by (simp only: index_mod_row [OF rows(1) assms(2)] index_mod_row [OF rows(2) assms(2)]
        index_mod_row [OF rows(3) assms(2)] index_mod_row [OF rows(4) assms(2)]
        index_mod_row [OF rows(5) assms(2)] index_mod_opt_row [OF rows(6) assms(2)]
        index_mod_opt_row [OF rows(7) assms(2)] sum.case)
  have wrap: "0 \<le> index \<longrightarrow> nat (index mod int (len self)) = nat index mod len self"
    by (simp add: nat_mod_distrib)
  have bound: "nat (index mod int (len self)) < MinariDataset_len self"
    using assms(2) by (simp add: MinariDataset_len_def nat_less_iff)
  show ?thesis
    using dict wrap bound by (simp add: opt_row_at_def)
qed

theorem getitem_wraps_index_witness:
  "dataset_rows two_transitions \<and> 0 < len two_transitions
   \<and> MinariDataset_len two_transitions = 2
   \<and> (\<exists>d. MinariDataset_getitem two_transitions 5 = Inr d
          \<and> d ''s'' = Some (Tensor \<lparr>shape = [2], elems = [3, 4]\<rparr>)
          \<and> d ''r'' = Some (Tensor \<lparr>shape = [1], elems = [8]\<rparr>)
          \<and> d ''fake_a'' = Some (Float 0) \<and> d ''fake_a_'' = Some (Float 0))"
  using getitem_wraps_index [of two_transitions 5]
  by (simp add: two_transitions_def dataset_rows_def has_rows_def opt_has_rows_def
      row_at_def row_def opt_row_at_def MinariDataset_len_def)

section \<open>Properties of \<^verbatim>\<open>sample_forward_process\<close> before the solver runs\<close>

lemma extra_batch_size_cases:
  "extra_batch_size b = Inl (AssertionError ''Invalid batch size'')
   \<or> (\<exists>e. extra_batch_size b = Inr e)"
  by (auto simp: extra_batch_size_def split: option.splits batch_size.splits)

lemma prepare_Inr:
  "prepare ext self a = Inr (e, n, integrate, call) \<longleftrightarrow>
     (\<exists>s x c. extra_batch_size (batch_size a) = Inr e
        \<and> data_batch_size (x_0 a) (condition a) = Inr n
        \<and> select_solver ext self (solver_config a) = Inr s
        \<and> initial_state self e n (x_0 a) = Inr x
        \<and> expand_condition e (condition a) = Inr c
        \<and> solver_call self s x c (t_span a) (with_grad a) e n = Inr (integrate, call))"
  by (auto simp: prepare_def bind_err_eq_Inr)

lemma initial_state_solver_update:
  "initial_state (self\<lparr>solver := s'\<rparr>) e n x = initial_state self e n x"
  by (simp add: initial_state_def split: option.splits)

lemma solver_call_solver_update:
  "solver_call (self\<lparr>solver := s'\<rparr>) s x c ts g e n = solver_call self s x c ts g e n"
  by (simp add: solver_call_def split: solver.splits option.splits)

lemma inverse_composition_solver_update:
  "inverse_composition (self\<lparr>solver := s'\<rparr>) a e n dat = inverse_composition self a e n dat"
  by (simp add: inverse_composition_def split: data.splits)

lemma prepare_solver_update:
  "solver_config a = Some sc \<Longrightarrow>
     prepare ext (self\<lparr>solver := s'\<rparr>) a = prepare ext self a"
  by (simp add: prepare_def select_solver_def initial_state_solver_update
      solver_call_solver_update)

text \<open>
  Claim C9. Whenever the normalisation of the batch-size argument succeeds (the
  argument is absent, an int or a sequence of ints), the extra batch size is a tensor of
  rank 1 holding 1, the int, or the elements of the sequence; so the test
  \<^verbatim>\<open>len(extra_batch_size.shape) == 0\<close> is false, and the arguments of \<^verbatim>\<open>reshape\<close> are
  those of the branch that unpacks the extra batch size, which unpacks to its elements.
\<close>

theorem extra_batch_size_rank_one:
  assumes "extra_batch_size b = Inr e"
  shows "length (shape e) = 1
       \<and> unpack e = Inr (elems e)
       \<and> reshape_dims e n xs = reshape_dims_unpacked e n xs
       \<and> (b = None \<longrightarrow> elems e = [1])
       \<and> (\<forall>k. b = Some (BInt k) \<longrightarrow> elems e = [k])
       \<and> (\<forall>ks. b = Some (BSeq ks) \<longrightarrow> elems e = ks)"
proof -
  have rank: "length (shape e) = 1"
    using assms
    by (auto simp: extra_batch_size_def torch_tensor_def
        split: option.splits batch_size.splits)
  then obtain k where sh: "shape e = [k]"
    by (cases "shape e") auto
  have "unpack e = Inr (elems e)"
    by (simp add: unpack_def sh)
  moreover have "reshape_dims e n xs = reshape_dims_unpacked e n xs"
    by (simp add: reshape_dims_def sh)
  moreover have "(b = None \<longrightarrow> elems e = [1])
       \<and> (\<forall>k. b = Some (BInt k) \<longrightarrow> elems e = [k])
       \<and> (\<forall>ks. b = Some (BSeq ks) \<longrightarrow> elems e = ks)"
    using assms by (auto simp: extra_batch_size_def torch_tensor_def)
  ultimately show ?thesis using rank by simp
qed

theorem extra_batch_size_rank_one_witness:
  "extra_batch_size (Some (BSeq [2, 3])) = Inr \<lparr>shape = [2], elems = [2, 3]\<rparr>
   \<and> length (shape \<lparr>shape = [2], elems = [2, 3 :: int]\<rparr>) = 1
   \<and> reshape_dims \<lparr>shape = [2], elems = [2, 3]\<rparr> 1 (XInt 4) = Inr [- 1, 2, 3, 1, 4]"
  using extra_batch_size_rank_one
    [of "Some (BSeq [2, 3])" "\<lparr>shape = [2], elems = [2, 3]\<rparr>" 1 "XInt 4"]
  by (simp add: extra_batch_size_def torch_tensor_def reshape_dims_unpacked_def)

text \<open>
  Claim C5. The data batch size is 1 when \<^verbatim>\<open>x_0\<close> and \<^verbatim>\<open>condition\<close> are both absent,
  the leading size of \<^verbatim>\<open>x_0\<close> when \<^verbatim>\<open>x_0\<close> is given (alone, or with a condition of the
  same leading size), and the leading size of \<^verbatim>\<open>condition\<close> when only that is given.
  When both are given with unequal leading sizes, the method raises an assertion error
  (that of the batch-size argument, or that of the mismatch) before it builds a call of
  the solver, and so does \<^verbatim>\<open>sample\<close>: neither input is cut to the other's size.
\<close>

theorem data_batch_size_rule:
  shows "data_batch_size None None = Inr 1
       \<and> (shape0 xt = Inr n \<longrightarrow> data_batch_size (Some xt) None = Inr n)
       \<and> (shape0 ct = Inr m \<longrightarrow> data_batch_size None (Some ct) = Inr m)
       \<and> (shape0 xt = Inr n \<longrightarrow> shape0 ct = Inr n \<longrightarrow>
            data_batch_size (Some xt) (Some ct) = Inr n)
       \<and> (shape0 xt = Inr n \<longrightarrow> shape0 ct = Inr m \<longrightarrow> n \<noteq> m \<longrightarrow>
            data_batch_size (Some xt) (Some ct) =
              Inl (AssertionError ''The batch size of x_0 and condition must be the same'')
            \<and> (x_0 a = Some xt \<longrightarrow> condition a = Some ct \<longrightarrow>
                 (\<exists>err. prepare ext self a = Inl err
                    \<and> sample_forward_process ext self a = Inl err
                    \<and> sample ext self a = Inl err
                    \<and> (err = AssertionError ''Invalid batch size'' \<or>
                        err = AssertionError
                          ''The batch size of x_0 and condition must be the same''))))"
proof -
  have mismatch: "\<exists>err. prepare ext self a = Inl err
                    \<and> sample_forward_process ext self a = Inl err
                    \<and> sample ext self a = Inl err
                    \<and> (err = AssertionError ''Invalid batch size'' \<or>
                        err = AssertionError
                          ''The batch size of x_0 and condition must be the same'')"
    if "shape0 xt = Inr n" "shape0 ct = Inr m" "n \<noteq> m"
      "x_0 a = Some xt" "condition a = Some ct"
  proof -
    have d: "data_batch_size (x_0 a) (condition a) =
        Inl (AssertionError ''The batch size of x_0 and condition must be the same'')"
      using that by (simp add: data_batch_size_def)
    from extra_batch_size_cases [of "batch_size a"] show ?thesis
    proof
      assume "extra_batch_size (batch_size a) = Inl (AssertionError ''Invalid batch size'')"
      then show ?thesis
        by (simp add: prepare_def sample_forward_process_def sample_def)
    next
      assume "\<exists>e. extra_batch_size (batch_size a) = Inr e"
      then show ?thesis
        using d by (auto simp: prepare_def sample_forward_process_def sample_def)
    qed
  qed
  show ?thesis
    using mismatch by (auto simp: data_batch_size_def)
qed

theorem data_batch_size_rule_witness:
  "shape0 two_samples = Inr 2 \<and> shape0 two_conditions = Inr 2
   \<and> shape0 three_conditions = Inr 3 \<and> (2 :: nat) \<noteq> 3
   \<and> data_batch_size (Some two_samples) None = Inr 2
   \<and> data_batch_size None (Some three_conditions) = Inr 3
   \<and> data_batch_size (Some two_samples) (Some two_conditions) = Inr 2
   \<and> sample_forward_process registry flow_ode
        (call_args (Some (BInt 4)) (Some two_samples) (Some three_conditions) False)
       = Inl (AssertionError ''The batch size of x_0 and condition must be the same'')"
  using data_batch_size_rule [where xt = two_samples and ct = three_conditions
      and n = 2 and m = 3 and ext = registry and self = flow_ode
      and a = "call_args (Some (BInt 4)) (Some two_samples) (Some three_conditions) False"]
    data_batch_size_rule [where xt = two_samples and ct = two_conditions
      and n = 2 and m = 2]
  by (simp add: shape0_def two_samples_def two_conditions_def three_conditions_def
      call_args_def extra_batch_size_def data_batch_size_def prepare_def
      sample_forward_process_def)

text \<open>
  Claim C6, as amended. A call without \<^verbatim>\<open>solver_config\<close> on an object that has no
  \<^verbatim>\<open>solver\<close> attribute raises before it builds a call of the solver, and the error is
  the assertion "solver must be specified in config or solver_config" whenever the
  checks that stand before it (the type of the batch-size argument, the leading sizes of
  \<^verbatim>\<open>x_0\<close> and \<^verbatim>\<open>condition\<close>) pass. A config without a solver builds such an object.
  When \<^verbatim>\<open>solver_config\<close> is given, the solver is the one the registry builds from it,
  and the result does not depend on the object's own solver.
\<close>

theorem no_solver_raises:
  shows "(solver_config a = None \<longrightarrow> solver self = None \<longrightarrow>
           (\<exists>err. prepare ext self a = Inl err
              \<and> sample_forward_process ext self a = Inl err
              \<and> (\<forall>e n. extra_batch_size (batch_size a) = Inr e \<longrightarrow>
                    data_batch_size (x_0 a) (condition a) = Inr n \<longrightarrow>
                    err = AssertionError
                            ''solver must be specified in config or solver_config'')))
       \<and> (cfg_solver cfg = None \<longrightarrow>
            (\<exists>m. FlowModel_init ext cfg = Inr m \<and> solver m = None))
       \<and> (solver_config a = Some sc \<longrightarrow>
            select_solver ext self (solver_config a)
              = get_solver ext (solver_type sc) (solver_args sc)
            \<and> sample_forward_process ext (self\<lparr>solver := s'\<rparr>) a
              = sample_forward_process ext self a)"
proof -
  have none: "\<exists>err. prepare ext self a = Inl err
              \<and> sample_forward_process ext self a = Inl err
              \<and> (\<forall>e n. extra_batch_size (batch_size a) = Inr e \<longrightarrow>
                    data_batch_size (x_0 a) (condition a) = Inr n \<longrightarrow>
                    err = AssertionError
                            ''solver must be specified in config or solver_config'')"
    if "solver_config a = None" "solver self = None"
  proof -
    have sel: "select_solver ext self (solver_config a) =
        Inl (AssertionError ''solver must be specified in config or solver_config'')"
      using that by (simp add: select_solver_def)
    show ?thesis
    proof (cases "extra_batch_size (batch_size a)")
      case (Inl err)
      then show ?thesis by (simp add: prepare_def sample_forward_process_def)
    next
      case e: (Inr e)
      show ?thesis
      proof (cases "data_batch_size (x_0 a) (condition a)")
        case (Inl err)
        with e show ?thesis by (simp add: prepare_def sample_forward_process_def)
      next
        case (Inr n)
        with e sel show ?thesis by (simp add: prepare_def sample_forward_process_def)
      qed
    qed
  qed
  have init: "\<exists>m. FlowModel_init ext cfg = Inr m \<and> solver m = None"
    if "cfg_solver cfg = None"
    using that by (simp add: FlowModel_init_def Let_def)
  have override: "select_solver ext self (solver_config a)
              = get_solver ext (solver_type sc) (solver_args sc)
            \<and> sample_forward_process ext (self\<lparr>solver := s'\<rparr>) a
              = sample_forward_process ext self a" if "solver_config a = Some sc"
    using that prepare_solver_update [OF that, where ext = ext and self = self and s' = s']
    by (simp add: select_solver_def sample_forward_process_def
        inverse_composition_solver_update)
  show ?thesis
    using none init override by blast
qed

theorem no_solver_raises_witness:
  "solver_config (call_args None None None False) = None
   \<and> cfg_solver config_without_solver = None
   \<and> FlowModel_init registry config_without_solver = Inr flow_without_solver
   \<and> solver flow_without_solver = None
   \<and> sample_forward_process registry flow_without_solver (call_args None None None False)
       = Inl (AssertionError ''solver must be specified in config or solver_config'')
   \<and> select_solver registry flow_ode (Some \<lparr>solver_type = ''dict'', solver_args = ()\<rparr>)
       = Inr (DictTensorODESolver unit_drift)
   \<and> sample_forward_process registry (flow_ode\<lparr>solver := None\<rparr>)
        ((call_args None None None False)\<lparr>solver_config :=
            Some \<lparr>solver_type = ''dict'', solver_args = ()\<rparr>\<rparr>)
       = sample_forward_process registry flow_ode
        ((call_args None None None False)\<lparr>solver_config :=
            Some \<lparr>solver_type = ''dict'', solver_args = ()\<rparr>\<rparr>)"
  using no_solver_raises [where a = "call_args None None None False"
      and self = flow_without_solver and ext = registry and cfg = config_without_solver]
    no_solver_raises [where a = "(call_args None None None False)\<lparr>solver_config :=
            Some \<lparr>solver_type = ''dict'', solver_args = ()\<rparr>\<rparr>" and self = flow_ode
      and ext = registry and sc = "\<lparr>solver_type = ''dict'', solver_args = ()\<rparr>"
      and s' = None]
  by (simp add: call_args_def config_without_solver_def flow_without_solver_def
      FlowModel_init_def registry_def extra_batch_size_def data_batch_size_def
      select_solver_def)

text \<open>
  The claim as it was stated fails on a call that has no solver and whose \<^verbatim>\<open>x_0\<close> and
  \<^verbatim>\<open>condition\<close> differ in leading size: the error raised is that of the mismatch.
\<close>

theorem no_solver_error_counterexample:
  "solver_config (call_args None (Some two_samples) (Some three_conditions) False) = None
   \<and> cfg_solver config_without_solver = None
   \<and> FlowModel_init registry config_without_solver = Inr flow_without_solver
   \<and> sample_forward_process registry flow_without_solver
        (call_args None (Some two_samples) (Some three_conditions) False)
       = Inl (AssertionError ''The batch size of x_0 and condition must be the same'')
   \<and> sample_forward_process registry flow_without_solver
        (call_args None (Some two_samples) (Some three_conditions) False)
       \<noteq> Inl (AssertionError ''solver must be specified in config or solver_config'')"
  by (simp add: call_args_def config_without_solver_def flow_without_solver_def
      FlowModel_init_def registry_def two_samples_def three_conditions_def shape0_def
      prepare_def extra_batch_size_def data_batch_size_def select_solver_def
      sample_forward_process_def)

text \<open>
  Claim C3, as amended. Whenever the method comes to call the solver, the call stands
  under \<^verbatim>\<open>torch.no_grad()\<close> exactly when \<^verbatim>\<open>with_grad\<close> is false. On the direct-drift
  path (an \<^verbatim>\<open>ODESolver\<close>) the call passes \<^verbatim>\<open>adjoint_params\<close>, the full parameter list
  of the model, in either mode, and neither \<^verbatim>\<open>batch_size\<close> nor \<^verbatim>\<open>x_size\<close>. On the
  structured path (a \<^verbatim>\<open>DictTensorODESolver\<close>) the call passes the flat batch size and
  the shape of the initial state, and no parameter list. No other solver is called.
\<close>

theorem integrate_call_arguments:
  assumes "prepare ext self a = Inr (e, n, integrate, call)"
  shows "no_grad call = (\<not> with_grad a)
       \<and> (\<exists>s. select_solver ext self (solver_config a) = Inr s
            \<and> (case s of
                  ODESolver f \<Rightarrow>
                    integrate = f
                    \<and> adjoint_params call = Some (find_parameters (model self))
                    \<and> call_batch_size call = None \<and> call_x_size call = None
                | DictTensorODESolver f \<Rightarrow>
                    integrate = f
                    \<and> adjoint_params call = None
                    \<and> call_batch_size call = Some (torch_prod e * int n)
                    \<and> call_x_size call = Some (shape_of (x0 call))
                | OtherSolver \<Rightarrow> False))"
proof -
  from assms obtain s x c where
    sel: "select_solver ext self (solver_config a) = Inr s" and
    call: "solver_call self s x c (t_span a) (with_grad a) e n = Inr (integrate, call)"
    by (auto simp: prepare_Inr)
  from call show ?thesis
    unfolding sel
    by (cases s) (auto simp: solver_call_def split: option.splits)
qed

lemma check_two_samples: "check_x_0 (XInt 2) two_samples = Inr ()"
  by code_simp

lemma repeat_two_samples_once:
  "repeat_interleave two_samples 1 = Inr \<lparr>shape = [2, 2], elems = [1, 2, 3, 4]\<rparr>"
  by code_simp

lemma prepare_two_samples_grad:
  "prepare registry flow_ode (call_args None (Some two_samples) None True)
     = Inr (torch_tensor [1], 2, unit_drift,
            \<lparr>drift = ModelDrift None,
             x0 = TorchTensor \<lparr>shape = [2, 2], elems = [1, 2, 3, 4]\<rparr>,
             call_t_span = Some three_steps, adjoint_params = Some [10, 11],
             call_batch_size = None, call_x_size = None, no_grad = False\<rparr>)"
proof -
  have "shape0 two_samples = Inr 2"
    by (simp add: shape0_def two_samples_def)
  moreover have "torch_prod (torch_tensor [1]) = 1"
    by (simp add: torch_prod_def torch_tensor_def)
  ultimately show ?thesis
    by (simp add: prepare_def call_args_def extra_batch_size_def data_batch_size_def
        select_solver_def flow_ode_def flow_without_solver_def initial_state_def
        check_two_samples repeat_two_samples_once expand_condition_def solver_call_def
        find_parameters_def)
qed

theorem integrate_call_arguments_witness:
  "prepare registry flow_ode (call_args None (Some two_samples) None True)
     = Inr (torch_tensor [1], 2, unit_drift,
            \<lparr>drift = ModelDrift None,
             x0 = TorchTensor \<lparr>shape = [2, 2], elems = [1, 2, 3, 4]\<rparr>,
             call_t_span = Some three_steps, adjoint_params = Some [10, 11],
             call_batch_size = None, call_x_size = None, no_grad = False\<rparr>)
   \<and> with_grad (call_args None (Some two_samples) None True)
   \<and> select_solver registry flow_ode
        (solver_config (call_args None (Some two_samples) None True))
       = Inr (ODESolver unit_drift)
   \<and> find_parameters (model flow_ode) = [10, 11]"
  using integrate_call_arguments [OF prepare_two_samples_grad] prepare_two_samples_grad
  by (simp add: call_args_def select_solver_def flow_ode_def flow_without_solver_def
      find_parameters_def)

text \<open>
  The claim as it was stated fails on the structured path with \<^verbatim>\<open>with_grad=True\<close>: on
  the object that \<^verbatim>\<open>__init__\<close> builds the method raises AttributeError before it calls
  the solver, and on an object that has the two attributes the call carries no parameter
  list, although the model has parameters.
\<close>

theorem structured_path_counterexample:
  "with_grad (call_args None None None True)
   \<and> FlowModel_init registry config_dict = Inr flow_dict
   \<and> prepare registry flow_dict (call_args None None None True)
       = Inl (AttributeError ''diffusion_process'')
   \<and> find_parameters (model flow_dict) = [10, 11]
   \<and> (\<exists>e n call.
         prepare registry
           (flow_dict\<lparr>diffusion_process := Some ''vp'', model_type := Some ''velocity''\<rparr>)
           (call_args None None None True) = Inr (e, n, unit_drift, call)
         \<and> adjoint_params call = None)"
  by (simp add: prepare_def call_args_def extra_batch_size_def data_batch_size_def
      select_solver_def flow_dict_def flow_without_solver_def config_dict_def
      config_without_solver_def FlowModel_init_def registry_def
      initial_state_def zeros_def torch_prod_def torch_tensor_def
      expand_condition_def solver_call_def find_parameters_def)

section \<open>Properties of \<^verbatim>\<open>sample\<close>\<close>

lemma getitem_last:
  assumes "shape d \<noteq> []" and "0 < hd (shape d)"
  shows "getitem d (- 1) = Inr (last_snapshot d)"
proof -
  obtain T s where sh: "shape d = T # s"
    using assms(1) by (cases "shape d") auto
  with assms(2) have T: "0 < T" by simp
  then have "nat (int T - 1) = T - 1" by simp
  with T show ?thesis
    by (simp add: getitem_def sh last_snapshot_def)
qed

lemma tree_getitem_last:
  assumes "\<forall>kv \<in> set kvs. shape (snd kv) \<noteq> [] \<and> 0 < hd (shape (snd kv))"
  shows "tree_getitem kvs (- 1) = Inr (map (\<lambda>kv. (fst kv, last_snapshot (snd kv))) kvs)"
  using assms
proof (induction kvs)
  case Nil
  show ?case by simp
next
  case (Cons kv kvs)
  obtain key d where kv: "kv = (key, d)" by (cases kv)
  with Cons.prems have "shape d \<noteq> []" "0 < hd (shape d)" by simp_all
  then have "getitem d (- 1) = Inr (last_snapshot d)" by (rule getitem_last)
  moreover have "tree_getitem kvs (- 1)
      = Inr (map (\<lambda>kv. (fst kv, last_snapshot (snd kv))) kvs)"
    using Cons by simp
  ultimately show ?case by (simp add: kv)
qed

text \<open>
  Claim C7. \<^verbatim>\<open>sample\<close> is \<^verbatim>\<open>sample_forward_process\<close> on the same arguments followed
  by \<^verbatim>\<open>[-1]\<close>: an error of the trajectory is the error of the sample; a tensor
  trajectory with at least one time step gives its slice at the last time index; a
  treetensor trajectory gives that slice key by key.
\<close>

theorem sample_is_last_snapshot:
  shows "sample ext self a
           = bind_err (sample_forward_process ext self a) (\<lambda>dat. data_getitem dat (- 1))
       \<and> (sample_forward_process ext self a = Inl err \<longrightarrow> sample ext self a = Inl err)
       \<and> (sample_forward_process ext self a = Inr (TorchTensor d) \<longrightarrow>
            shape d \<noteq> [] \<longrightarrow> 0 < hd (shape d) \<longrightarrow>
            sample ext self a = Inr (TorchTensor (last_snapshot d)))
       \<and> (sample_forward_process ext self a = Inr (TreeTensor kvs) \<longrightarrow>
            (\<forall>kv \<in> set kvs. shape (snd kv) \<noteq> [] \<and> 0 < hd (shape (snd kv))) \<longrightarrow>
            sample ext self a
              = Inr (TreeTensor (map (\<lambda>kv. (fst kv, last_snapshot (snd kv))) kvs)))"
  by (simp add: sample_def data_getitem_def getitem_last tree_getitem_last)

lemma trajectory_two_samples:
  "sample_forward_process registry flow_ode (call_args None (Some two_samples) None False)
     = Inr (TorchTensor \<lparr>shape = [3, 2, 2],
                          elems = [1, 2, 3, 4, 2, 3, 4, 5, 3, 4, 5, 6]\<rparr>)"
  by code_simp

theorem sample_is_last_snapshot_witness:
  "sample_forward_process registry flow_ode (call_args None (Some two_samples) None False)
     = Inr (TorchTensor \<lparr>shape = [3, 2, 2],
                          elems = [1, 2, 3, 4, 2, 3, 4, 5, 3, 4, 5, 6]\<rparr>)
   \<and> last_snapshot
        \<lparr>shape = [3, 2, 2], elems = [1, 2, 3, 4, 2, 3, 4, 5, 3, 4, 5, 6 :: nat]\<rparr>
       = \<lparr>shape = [2, 2], elems = [3, 4, 5, 6]\<rparr>
   \<and> sample registry flow_ode (call_args None (Some two_samples) None False)
       = Inr (TorchTensor \<lparr>shape = [2, 2], elems = [3, 4, 5, 6]\<rparr>)"
proof -
  have l: "last_snapshot
        \<lparr>shape = [3, 2, 2], elems = [1, 2, 3, 4, 2, 3, 4, 5, 3, 4, 5, 6 :: nat]\<rparr>
       = \<lparr>shape = [2, 2], elems = [3, 4, 5, 6]\<rparr>"
    by (simp add: last_snapshot_def row_def)
  show ?thesis
    using sample_is_last_snapshot [where ext = registry and self = flow_ode
        and a = "call_args None (Some two_samples) None False"
        and d = "\<lparr>shape = [3, 2, 2], elems = [1, 2, 3, 4, 2, 3, 4, 5, 3, 4, 5, 6]\<rparr>",
        THEN conjunct2]
      trajectory_two_samples l
    by simp
qed

section \<open>Repeat-interleave\<close>

lemma take_drop_block:
  assumes "\<forall>x \<in> set xss. length x = L" and "i < length xss"
  shows "take L (drop (i * L) (concat xss)) = xss ! i"
  using assms
proof (induction xss arbitrary: i)
  case Nil
  then show ?case by simp
next
  case (Cons x xss)
  then have len: "length x = L" by simp
  show ?case
  proof (cases i)
    case 0
    with len show ?thesis by simp
  next
    case (Suc k)
    with Cons.prems have "k < length xss" by simp
    with Cons have "take L (drop (k * L) (concat xss)) = xss ! k" by simp
    with len Suc show ?thesis by simp
  qed
qed

lemma nth_replicated_blocks:
  assumes "i < n" and "j < k"
  shows "concat (map (\<lambda>i. replicate k (f i)) [0..<n]) ! (i * k + j) = f i"
proof -
  let ?B = "map (\<lambda>i. replicate k (f i)) [0..<n]"
  have "take k (drop (i * k) (concat ?B)) = ?B ! i"
    using assms(1) by (intro take_drop_block) auto
  then have blk: "take k (drop (i * k) (concat ?B)) = replicate k (f i)"
    using assms(1) by simp
  have "length (concat ?B) = n * k"
    by (simp add: length_concat comp_def sum_list_triv)
  moreover have "i * k \<le> n * k"
    using assms(1) by (intro mult_le_mono1) simp
  ultimately have "i * k \<le> length (concat ?B)"
    by simp
  then have "drop (i * k) (concat ?B) ! j = concat ?B ! (i * k + j)"
    by (rule nth_drop)
  then have "concat ?B ! (i * k + j) = drop (i * k) (concat ?B) ! j"
    by simp
  also have "\<dots> = take k (drop (i * k) (concat ?B)) ! j"
    using assms(2) by simp
  also have "\<dots> = f i"
    using assms(2) by (simp add: blk)
  finally show ?thesis .
qed

lemma concat_map_concat: "concat (map concat xss) = concat (concat xss)"
  by (induction xss) simp_all

lemma length_concat_blocks:
  "\<forall>x \<in> set xss. length x = L \<Longrightarrow> length (concat xss) = length xss * L"
  by (induction xss) simp_all

lemma row_length:
  assumes "wf_tensor t" and "shape t = n # s" and "i < n"
  shows "length (row t i) = prod_list s"
proof -
  have "length (elems t) = n * prod_list s"
    using assms(1,2) by (simp add: wf_tensor_def)
  moreover have "Suc i * prod_list s \<le> n * prod_list s"
    using assms(3) by (intro mult_le_mono1) simp
  ultimately show ?thesis
    by (simp add: row_def assms(2))
qed

lemma repeat_interleave_rows:
  assumes wf: "wf_tensor t" and sh: "shape t = n # s"
    and rep: "repeat_interleave t k = Inr r"
  shows "shape r = (n * nat k) # s \<and> wf_tensor r
       \<and> (\<forall>i<n. \<forall>j<nat k. row r (i * nat k + j) = row t i)"
proof -
  have k: "0 \<le> k" and r: "r = \<lparr>shape = (n * nat k) # s,
        elems = concat (map (\<lambda>i. concat (replicate (nat k) (row t i))) [0..<n])\<rparr>"
    using rep by (auto simp: repeat_interleave_def sh split: if_splits)
  let ?R = "concat (map (\<lambda>i. replicate (nat k) (row t i)) [0..<n])"
  have el: "elems r = concat ?R"
    using concat_map_concat [of "map (\<lambda>i. replicate (nat k) (row t i)) [0..<n]"]
    by (simp add: r comp_def)
  have lens: "\<forall>x \<in> set ?R. length x = prod_list s"
    using row_length [OF wf sh] by auto
  have lenR: "length ?R = n * nat k"
    by (simp add: length_concat comp_def sum_list_triv)
  have "length (concat ?R) = n * nat k * prod_list s"
    using length_concat_blocks [OF lens] lenR by simp
  then have wfr: "wf_tensor r"
    by (simp add: wf_tensor_def el) (simp add: r)
  have rows: "row r (i * nat k + j) = row t i" if "i < n" "j < nat k" for i j
  proof -
    have "i * nat k + j < n * nat k"
    proof -
      have "i * nat k + j < Suc i * nat k" using that(2) by simp
      also have "\<dots> \<le> n * nat k" using that(1) by (intro mult_le_mono1) simp
      finally show ?thesis .
    qed
    then have "take (prod_list s) (drop ((i * nat k + j) * prod_list s) (concat ?R))
        = ?R ! (i * nat k + j)"
      using lens lenR by (intro take_drop_block) auto
    also have "\<dots> = row t i"
      using that by (rule nth_replicated_blocks)
    finally show ?thesis
      by (simp add: row_def el) (simp add: r)
  qed
  show ?thesis
    using wfr rows by (simp add: r)
qed


lemma solver_call_fields:
  assumes "solver_call self s x c ts g e n = Inr (f, call)"
  shows "x0 call = x \<and> drift_condition (drift call) = c \<and> call_t_span call = ts"
  using assms
  by (cases s) (auto simp: solver_call_def drift_condition_def split: option.splits)

lemma data_batch_size_x_0:
  "data_batch_size (Some xt) c = Inr n \<Longrightarrow> shape0 xt = Inr n"
  by (cases c) (auto simp: data_batch_size_def bind_err_eq_Inr split: if_splits)

lemma data_batch_size_condition:
  "data_batch_size x (Some ct) = Inr n \<Longrightarrow> shape0 ct = Inr n"
  by (cases x) (auto simp: data_batch_size_def bind_err_eq_Inr split: if_splits)

lemma shape0_Inr: "shape0 t = Inr n \<longleftrightarrow> (\<exists>s. shape t = n # s)"
  by (cases "shape t") (auto simp: shape0_def)

text \<open>
  Claim C4. Whenever the method comes to call the solver, with \<open>n\<close> the data batch size
  and \<open>k\<close> the product of the extra batch size: a given \<^verbatim>\<open>x_0\<close> has \<open>n\<close> rows, the
  initial state of the call has \<open>n * k\<close> rows, and its rows \<open>i * k\<close> to
  \<open>(i + 1) * k - 1\<close> are all row \<open>i\<close> of \<^verbatim>\<open>x_0\<close>; a given \<^verbatim>\<open>condition\<close> has \<open>n\<close> rows
  and the condition that the drift of the call uses is expanded in the same way, so row
  \<open>i * k + j\<close> of the state and of the condition come from sample \<open>i\<close> of both.
\<close>

theorem repeat_interleave_alignment:
  assumes prep: "prepare ext self a = Inr (e, n, integrate, call)"
  shows "(\<forall>xt. x_0 a = Some xt \<longrightarrow> wf_tensor xt \<longrightarrow>
            shape0 xt = Inr n
            \<and> (\<exists>r. x0 call = TorchTensor r \<and> wf_tensor r
                  \<and> shape r = (n * nat (torch_prod e)) # tl (shape xt)
                  \<and> (\<forall>i<n. \<forall>j<nat (torch_prod e).
                         row r (i * nat (torch_prod e) + j) = row xt i)))
       \<and> (\<forall>ct. condition a = Some ct \<longrightarrow> wf_tensor ct \<longrightarrow>
            shape0 ct = Inr n
            \<and> (\<exists>r. drift_condition (drift call) = Some r \<and> wf_tensor r
                  \<and> shape r = (n * nat (torch_prod e)) # tl (shape ct)
                  \<and> (\<forall>i<n. \<forall>j<nat (torch_prod e).
                         row r (i * nat (torch_prod e) + j) = row ct i)))"
proof -
  from prep obtain s x c where
    dbs: "data_batch_size (x_0 a) (condition a) = Inr n" and
    init: "initial_state self e n (x_0 a) = Inr x" and
    cond: "expand_condition e (condition a) = Inr c" and
    call: "solver_call self s x c (t_span a) (with_grad a) e n = Inr (integrate, call)"
    by (auto simp: prepare_Inr)
  note fields = solver_call_fields [OF call]
  have state: "shape0 xt = Inr n
            \<and> (\<exists>r. x0 call = TorchTensor r \<and> wf_tensor r
                  \<and> shape r = (n * nat (torch_prod e)) # tl (shape xt)
                  \<and> (\<forall>i<n. \<forall>j<nat (torch_prod e).
                         row r (i * nat (torch_prod e) + j) = row xt i))"
    if x: "x_0 a = Some xt" and wf: "wf_tensor xt" for xt
  proof -
    have n: "shape0 xt = Inr n"
      using dbs x by (simp add: data_batch_size_x_0)
    then obtain sh where sh: "shape xt = n # sh"
      by (auto simp: shape0_Inr)
    from init x obtain r where
      rep: "repeat_interleave xt (torch_prod e) = Inr r" and xr: "x = TorchTensor r"
      by (auto simp: initial_state_def bind_err_eq_Inr)
    from repeat_interleave_rows [OF wf sh rep] n xr fields show ?thesis
      by (simp add: sh)
  qed
  have conds: "shape0 ct = Inr n
            \<and> (\<exists>r. drift_condition (drift call) = Some r \<and> wf_tensor r
                  \<and> shape r = (n * nat (torch_prod e)) # tl (shape ct)
                  \<and> (\<forall>i<n. \<forall>j<nat (torch_prod e).
                         row r (i * nat (torch_prod e) + j) = row ct i))"
    if ct: "condition a = Some ct" and wf: "wf_tensor ct" for ct
  proof -
    have n: "shape0 ct = Inr n"
      using dbs ct by (simp add: data_batch_size_condition)
    then obtain sh where sh: "shape ct = n # sh"
      by (auto simp: shape0_Inr)
    from cond ct obtain r where
      rep: "repeat_interleave ct (torch_prod e) = Inr r" and cr: "c = Some r"
      by (auto simp: expand_condition_def bind_err_eq_Inr)
    from repeat_interleave_rows [OF wf sh rep] n cr fields show ?thesis
      by (simp add: sh)
  qed
  show ?thesis
    using state conds by blast
qed

lemma repeat_two_samples_twice:
  "repeat_interleave two_samples 2
     = Inr \<lparr>shape = [4, 2], elems = [1, 2, 1, 2, 3, 4, 3, 4]\<rparr>"
  by code_simp

lemma repeat_two_conditions_twice:
  "repeat_interleave two_conditions 2 = Inr \<lparr>shape = [4, 1], elems = [7, 7, 8, 8]\<rparr>"
  by code_simp

lemma prepare_two_by_two:
  "prepare registry flow_ode
     (call_args (Some (BInt 2)) (Some two_samples) (Some two_conditions) False)
     = Inr (torch_tensor [2], 2, unit_drift,
            \<lparr>drift = ModelDrift (Some \<lparr>shape = [4, 1], elems = [7, 7, 8, 8]\<rparr>),
             x0 = TorchTensor \<lparr>shape = [4, 2], elems = [1, 2, 1, 2, 3, 4, 3, 4]\<rparr>,
             call_t_span = Some three_steps, adjoint_params = Some [10, 11],
             call_batch_size = None, call_x_size = None, no_grad = True\<rparr>)"
proof -
  have "shape0 two_samples = Inr 2" "shape0 two_conditions = Inr 2"
    by (simp_all add: shape0_def two_samples_def two_conditions_def)
  moreover have "torch_prod (torch_tensor [2]) = 2"
    by (simp add: torch_prod_def torch_tensor_def)
  ultimately show ?thesis
    by (simp add: prepare_def call_args_def extra_batch_size_def data_batch_size_def
        select_solver_def flow_ode_def flow_without_solver_def initial_state_def
        check_two_samples repeat_two_samples_twice repeat_two_conditions_twice
        expand_condition_def solver_call_def find_parameters_def)
qed

theorem repeat_interleave_alignment_witness:
  "prepare registry flow_ode
     (call_args (Some (BInt 2)) (Some two_samples) (Some two_conditions) False)
     = Inr (torch_tensor [2], 2, unit_drift,
            \<lparr>drift = ModelDrift (Some \<lparr>shape = [4, 1], elems = [7, 7, 8, 8]\<rparr>),
             x0 = TorchTensor \<lparr>shape = [4, 2], elems = [1, 2, 1, 2, 3, 4, 3, 4]\<rparr>,
             call_t_span = Some three_steps, adjoint_params = Some [10, 11],
             call_batch_size = None, call_x_size = None, no_grad = True\<rparr>)
   \<and> wf_tensor two_samples \<and> wf_tensor two_conditions
   \<and> nat (torch_prod (torch_tensor [2])) = 2
   \<and> row \<lparr>shape = [4, 2], elems = [1, 2, 1, 2, 3, 4, 3, 4 :: nat]\<rparr> (1 * 2 + 0)
       = row two_samples 1
   \<and> row \<lparr>shape = [4, 2], elems = [1, 2, 1, 2, 3, 4, 3, 4 :: nat]\<rparr> (1 * 2 + 1)
       = row two_samples 1
   \<and> row \<lparr>shape = [4, 1], elems = [7, 7, 8, 8 :: nat]\<rparr> (1 * 2 + 1)
       = row two_conditions 1
   \<and> row two_samples 1 = [3, 4] \<and> row two_conditions 1 = [8]"
proof -
  have wf: "wf_tensor two_samples" "wf_tensor two_conditions"
    by (simp_all add: wf_tensor_def two_samples_def two_conditions_def)
  have k: "nat (torch_prod (torch_tensor [2])) = 2"
    by (simp add: torch_prod_def torch_tensor_def)
  have a: "x_0 (call_args (Some (BInt 2)) (Some two_samples) (Some two_conditions) False)
      = Some two_samples"
    "condition (call_args (Some (BInt 2)) (Some two_samples) (Some two_conditions) False)
      = Some two_conditions"
    by (simp_all add: call_args_def)
  let ?k = "nat (torch_prod (torch_tensor [2]))"
  note al = repeat_interleave_alignment [OF prepare_two_by_two]
  from al a(1) wf(1) obtain r where
    r: "TorchTensor \<lparr>shape = [4, 2], elems = [1, 2, 1, 2, 3, 4, 3, 4 :: nat]\<rparr> = TorchTensor r"
    and rows: "\<forall>i<2. \<forall>j<?k. row r (i * ?k + j) = row two_samples i"
    by fastforce
  from rows have rows2: "\<forall>i<2. \<forall>j<2. row r (i * 2 + j) = row two_samples i"
    by (simp only: k)
  have "row r (1 * 2 + 0) = row two_samples 1" "row r (1 * 2 + 1) = row two_samples 1"
    using rows2 [rule_format, of 1 0] rows2 [rule_format, of 1 1] by simp_all
  with r have x: "row \<lparr>shape = [4, 2], elems = [1, 2, 1, 2, 3, 4, 3, 4 :: nat]\<rparr> (1 * 2 + 0)
       = row two_samples 1"
    "row \<lparr>shape = [4, 2], elems = [1, 2, 1, 2, 3, 4, 3, 4 :: nat]\<rparr> (1 * 2 + 1)
       = row two_samples 1"
    by simp_all
  from al a(2) wf(2) obtain cr where
    cr: "drift_condition (ModelDrift (Some \<lparr>shape = [4, 1], elems = [7, 7, 8, 8 :: nat]\<rparr>))
           = Some cr"
    and crows: "\<forall>i<2. \<forall>j<?k. row cr (i * ?k + j) = row two_conditions i"
    by fastforce
  from crows have crows2: "\<forall>i<2. \<forall>j<2. row cr (i * 2 + j) = row two_conditions i"
    by (simp only: k)
  have "row cr (1 * 2 + 1) = row two_conditions 1"
    using crows2 [rule_format, of 1 1] by simp
  with cr have c: "row \<lparr>shape = [4, 1], elems = [7, 7, 8, 8 :: nat]\<rparr> (1 * 2 + 1)
       = row two_conditions 1"
    by (simp add: drift_condition_def)
  have v: "row two_samples 1 = [3, 4]" "row two_conditions 1 = [8]"
    by (simp_all add: row_def two_samples_def two_conditions_def)
  show ?thesis
    using prepare_two_by_two wf k x c v by simp
qed

section \<open>The shape of the result\<close>

lemma scan_shape_nat:
  "scan_shape (map int ns) (p, b) = Inr (p * prod_list ns, b)"
  by (induction ns arbitrary: p) (simp_all add: mult.assoc)

lemma reshape_infer:
  assumes "numel t = T * prod_list ns" and "0 < prod_list ns"
  shows "reshape t (- 1 # map int ns) = Inr (t\<lparr>shape := T # ns\<rparr>)"
proof -
  have "scan_shape (- 1 # map int ns) (1, False) = Inr (prod_list ns, True)"
    by (simp add: scan_shape_nat)
  moreover have "map (\<lambda>d. if d = - 1 then v else nat d) (map int ms) = ms" for v ms
    by (induction ms) simp_all
  ultimately show ?thesis
    using assms by (simp add: reshape_def)
qed

lemma squeeze_axis:
  assumes "j < length (shape t)"
  shows "squeeze t (int j) =
           Inr (if shape t ! j = 1
                then t\<lparr>shape := take j (shape t) @ drop (Suc j) (shape t)\<rparr> else t)"
proof -
  from assms have "shape t \<noteq> []" by auto
  with assms show ?thesis
    by (simp add: squeeze_def Let_def)
qed

lemma squeeze_dims_none_no_data:
  assumes "shape d = [T, 1, 1, D]"
  shows "squeeze_dims None True e d = Inr (d\<lparr>shape := [T, D]\<rparr>)"
proof -
  have "squeeze d 1 = Inr (d\<lparr>shape := [T, 1, D]\<rparr>)"
    using squeeze_axis [of 1 d] by (simp add: assms)
  moreover have "squeeze (d\<lparr>shape := [T, 1, D]\<rparr>) 1 = Inr (d\<lparr>shape := [T, D]\<rparr>)"
    using squeeze_axis [of 1 "d\<lparr>shape := [T, 1, D]\<rparr>"] by simp
  ultimately show ?thesis
    by (simp add: squeeze_dims_def)
qed

lemma squeeze_dims_none_data:
  assumes "shape d = [T, 1, N, D]"
  shows "squeeze_dims None False e d = Inr (d\<lparr>shape := [T, N, D]\<rparr>)"
  using squeeze_axis [of 1 d] by (simp add: assms squeeze_dims_def)

lemma squeeze_dims_int_no_data:
  assumes "shape d = [T, B, 1, D]" and "length (shape e) = 1"
  shows "squeeze_dims (Some b) True e d = Inr (d\<lparr>shape := [T, B, D]\<rparr>)"
  using squeeze_axis [of 2 d] by (simp add: assms squeeze_dims_def)

lemma squeeze_dims_int_data:
  "squeeze_dims (Some b) False e d = Inr d"
  by (simp add: squeeze_dims_def)


lemma prod_list_int: "prod_list (map int ns) = int (prod_list ns)"
  by (induction ns) simp_all

lemma extra_batch_size_shape:
  "extra_batch_size b = Inr e \<Longrightarrow> \<exists>k. shape e = [k]"
  by (auto simp: extra_batch_size_def torch_tensor_def split: option.splits batch_size.splits)

lemma initial_state_shape:
  assumes xs: "x_size self = XInt (int D)"
    and gen: "\<forall>k. 0 < k \<longrightarrow> draws D k (gaussian_generator self k)"
    and p: "torch_prod e = int P" and P: "0 < P" and N: "0 < N"
    and x: "\<forall>xt. x = Some xt \<longrightarrow> shape xt = [N, D]"
  shows "\<exists>t. initial_state self e N x = Inr (TorchTensor t) \<and> shape t = [P * N, D]"
proof (cases x)
  case None
  have "0 < int P * int N" using P N by simp
  with gen have "draws D (int P * int N) (gaussian_generator self (int P * int N))"
    by blast
  then obtain g where "gaussian_generator self (int P * int N) = Inr (TorchTensor g)"
    and "shape g = [nat (int P * int N), D]"
    by (auto simp: draws_def split: sum.splits data.splits)
  moreover have "nat (int P * int N) = P * N"
    by (simp add: nat_mult_distrib)
  ultimately show ?thesis
    using None by (simp add: initial_state_def p)
next
  case (Some xt)
  with x have sh: "shape xt = [N, D]" by simp
  have "getitem xt 0 = Inr \<lparr>shape = [D], elems = row xt 0\<rparr>"
    using N by (simp add: getitem_def sh)
  then have "check_x_0 (XInt (int D)) xt = Inr ()"
    by (simp add: check_x_0_def)
  moreover have "repeat_interleave xt (int P)
      = Inr \<lparr>shape = [N * P, D],
               elems = concat (map (\<lambda>i. concat (replicate P (row xt i))) [0..<N])\<rparr>"
    by (simp add: repeat_interleave_def sh)
  ultimately show ?thesis
    using Some by (simp add: initial_state_def xs p mult.commute)
qed

lemma expand_condition_ok:
  assumes "0 \<le> torch_prod e" and "\<forall>ct. c = Some ct \<longrightarrow> shape0 ct = Inr N"
  shows "\<exists>c'. expand_condition e c = Inr c'"
proof (cases c)
  case None
  then show ?thesis by (simp add: expand_condition_def)
next
  case (Some ct)
  with assms(2) obtain s where "shape ct = N # s"
    by (auto simp: shape0_Inr)
  with assms(1) Some show ?thesis
    by (simp add: expand_condition_def repeat_interleave_def)
qed

lemma solver_call_ok:
  assumes "integrates_with self s integrate"
  shows "\<exists>call. solver_call self s x c ts g e n = Inr (integrate, call)"
  using assms
  by (cases s) (auto simp: integrates_with_def solver_call_def)

lemma trajectory_reshaped:
  assumes xs: "x_size self = XInt (int D)" and D: "0 < D"
    and sel: "select_solver ext self (solver_config a) = Inr s"
    and iw: "integrates_with self s integrate"
    and traj: "\<forall>e n call. prepare ext self a = Inr (e, n, integrate, call)
                 \<longrightarrow> is_trajectory T (x0 call) (integrate call)"
    and gen: "\<forall>k. 0 < k \<longrightarrow> draws D k (gaussian_generator self k)"
    and e: "extra_batch_size (batch_size a) = Inr e"
    and el: "elems e = map int bs" and bs: "0 < prod_list bs"
    and n: "data_batch_size (x_0 a) (condition a) = Inr N" and N: "0 < N"
    and x: "\<forall>xt. x_0 a = Some xt \<longrightarrow> shape xt = [N, D]"
  shows "\<exists>d. sample_forward_process ext self a
             = bind_err (squeeze_dims (batch_size a)
                           (x_0 a = None \<and> condition a = None) e d)
                 (\<lambda>d'. Inr (TorchTensor d'))
           \<and> shape d = T # bs @ [N, D]"
proof -
  let ?P = "prod_list bs"
  have p: "torch_prod e = int ?P"
    by (simp add: torch_prod_def el prod_list_int)
  from initial_state_shape [OF xs gen p bs N x] obtain xt where
    init: "initial_state self e N (x_0 a) = Inr (TorchTensor xt)"
    and xsh: "shape xt = [?P * N, D]"
    by blast
  have "\<forall>ct. condition a = Some ct \<longrightarrow> shape0 ct = Inr N"
    using n by (auto dest: data_batch_size_condition)
  with expand_condition_ok [of e "condition a" N] p obtain c where
    cond: "expand_condition e (condition a) = Inr c"
    by auto
  from solver_call_ok [OF iw] obtain call where
    call: "solver_call self s (TorchTensor xt) c (t_span a) (with_grad a) e N
             = Inr (integrate, call)"
    by blast
  have prep: "prepare ext self a = Inr (e, N, integrate, call)"
    using e n sel init cond call by (auto simp: prepare_Inr)
  have "x0 call = TorchTensor xt"
    using solver_call_fields [OF call] by simp
  moreover from traj prep have "is_trajectory T (x0 call) (integrate call)"
    by blast
  ultimately obtain d0 where
    res: "integrate call = Inr (TorchTensor d0)" and dsh: "shape d0 = [T, ?P * N, D]"
    by (auto simp: is_trajectory_def xsh split: sum.splits data.splits)
  from extra_batch_size_shape [OF e] obtain k where esh: "shape e = [k]"
    by blast
  have dims: "reshape_dims e N (XInt (int D)) = Inr (- 1 # map int (bs @ [N, D]))"
    by (simp add: reshape_dims_def reshape_dims_unpacked_def unpack_def esh el)
  have "numel d0 = T * prod_list (bs @ [N, D])"
    by (simp add: numel_def dsh)
  moreover have "0 < prod_list (bs @ [N, D])"
    using bs N D by simp
  ultimately have resh: "reshape d0 (- 1 # map int (bs @ [N, D]))
      = Inr (d0\<lparr>shape := T # bs @ [N, D]\<rparr>)"
    by (rule reshape_infer)
  then have resh': "reshape d0 (- 1 # map int bs @ [int N, int D])
      = Inr (d0\<lparr>shape := T # bs @ [N, D]\<rparr>)"
    by simp
  have "sample_forward_process ext self a
      = bind_err (squeeze_dims (batch_size a) (x_0 a = None \<and> condition a = None) e
                    (d0\<lparr>shape := T # bs @ [N, D]\<rparr>))
          (\<lambda>d'. Inr (TorchTensor d'))"
    by (simp add: sample_forward_process_def prep res inverse_composition_def
        inverse_tensor_def xs dims resh')
  then show ?thesis
    by (intro exI [of _ "d0\<lparr>shape := T # bs @ [N, D]\<rparr>"]) simp
qed


lemma rows_given_data_batch_size:
  assumes "rows_given a N D"
  shows "data_batch_size (x_0 a) (condition a) = Inr N
       \<and> (\<forall>xt. x_0 a = Some xt \<longrightarrow> shape xt = [N, D])
       \<and> \<not> (x_0 a = None \<and> condition a = None)"
  using assms
  by (auto simp: rows_given_def data_batch_size_def shape0_def
      split: option.splits list.splits)

lemma no_rows_data_batch_size:
  assumes "x_0 a = None" and "condition a = None"
  shows "data_batch_size (x_0 a) (condition a) = Inr 1
       \<and> (\<forall>xt. x_0 a = Some xt \<longrightarrow> shape xt = [1, D])"
  using assms by (simp add: data_batch_size_def)

text \<open>
  Claim C1. Let the state shape be \<open>(D,)\<close> with \<open>D > 0\<close>, let the solver that the call
  selects be one whose \<^verbatim>\<open>integrate\<close> the method calls, let it return a tensor trajectory
  of \<open>T\<close> snapshots of the initial state's shape on the call that the method makes, and
  let the generator draw batches of shape \<open>(k, D)\<close>. Then \<^verbatim>\<open>sample_forward_process\<close>
  returns a tensor of shape \<open>(T, D)\<close> when \<^verbatim>\<open>batch_size\<close>, \<^verbatim>\<open>x_0\<close> and \<^verbatim>\<open>condition\<close>
  are absent; of shape \<open>(T, N, D)\<close> when \<^verbatim>\<open>batch_size\<close> is absent and \<^verbatim>\<open>x_0\<close> or
  \<^verbatim>\<open>condition\<close> is given with \<open>N > 0\<close> rows; of shape \<open>(T, B, D)\<close> when \<^verbatim>\<open>batch_size\<close>
  is the int \<open>B > 0\<close> and neither is given; and of shape \<open>(T, B, N, D)\<close> when
  \<^verbatim>\<open>batch_size\<close> is the int \<open>B > 0\<close> and \<^verbatim>\<open>x_0\<close> or \<^verbatim>\<open>condition\<close> is given with
  \<open>N > 0\<close> rows.
\<close>

theorem output_shape_regimes:
  assumes xs: "x_size self = XInt (int D)" and D: "0 < D"
    and sel: "select_solver ext self (solver_config a) = Inr s"
    and iw: "integrates_with self s integrate"
    and traj: "\<And>e n call. prepare ext self a = Inr (e, n, integrate, call)
                 \<Longrightarrow> is_trajectory T (x0 call) (integrate call)"
    and gen: "\<And>k. 0 < k \<Longrightarrow> draws D k (gaussian_generator self k)"
  shows "(batch_size a = None \<and> x_0 a = None \<and> condition a = None \<longrightarrow>
           (\<exists>d. sample_forward_process ext self a = Inr (TorchTensor d)
                \<and> shape d = [T, D]))
       \<and> (batch_size a = None \<and> rows_given a N D \<and> 0 < N \<longrightarrow>
           (\<exists>d. sample_forward_process ext self a = Inr (TorchTensor d)
                \<and> shape d = [T, N, D]))
       \<and> (batch_size a = Some (BInt B) \<and> 0 < B \<and> x_0 a = None \<and> condition a = None \<longrightarrow>
           (\<exists>d. sample_forward_process ext self a = Inr (TorchTensor d)
                \<and> shape d = [T, nat B, D]))
       \<and> (batch_size a = Some (BInt B) \<and> 0 < B \<and> rows_given a N D \<and> 0 < N \<longrightarrow>
           (\<exists>d. sample_forward_process ext self a = Inr (TorchTensor d)
                \<and> shape d = [T, nat B, N, D]))"
proof -
  have traj': "\<forall>e n call. prepare ext self a = Inr (e, n, integrate, call)
                 \<longrightarrow> is_trajectory T (x0 call) (integrate call)"
    using traj by blast
  have gen': "\<forall>k. 0 < k \<longrightarrow> draws D k (gaussian_generator self k)"
    using gen by blast
  note reshaped = trajectory_reshaped [OF xs D sel iw traj' gen']
  have one: "elems (torch_tensor [1]) = map int [1]" "0 < prod_list [1 :: nat]"
    by (simp_all add: torch_tensor_def)
  have regime_a: "\<exists>d. sample_forward_process ext self a = Inr (TorchTensor d)
                \<and> shape d = [T, D]"
    if b: "batch_size a = None" and x: "x_0 a = None" and c: "condition a = None"
  proof -
    have e: "extra_batch_size (batch_size a) = Inr (torch_tensor [1])"
      by (simp add: b extra_batch_size_def)
    from no_rows_data_batch_size [OF x c, of D] have
      n: "data_batch_size (x_0 a) (condition a) = Inr 1"
      and xt: "\<forall>xt. x_0 a = Some xt \<longrightarrow> shape xt = [1, D]"
      by simp_all
    from reshaped [OF e one n _ xt] obtain d where
      "sample_forward_process ext self a
         = bind_err (squeeze_dims (batch_size a) (x_0 a = None \<and> condition a = None)
                      (torch_tensor [1]) d) (\<lambda>d'. Inr (TorchTensor d'))"
      and "shape d = [T, 1, 1, D]"
      by (auto simp: torch_tensor_def)
    then show ?thesis
      by (simp add: b x c squeeze_dims_none_no_data)
  qed
  have regime_b: "\<exists>d. sample_forward_process ext self a = Inr (TorchTensor d)
                \<and> shape d = [T, N, D]"
    if b: "batch_size a = None" and r: "rows_given a N D" and N: "0 < N"
  proof -
    have e: "extra_batch_size (batch_size a) = Inr (torch_tensor [1])"
      by (simp add: b extra_batch_size_def)
    from rows_given_data_batch_size [OF r] have
      n: "data_batch_size (x_0 a) (condition a) = Inr N"
      and xt: "\<forall>xt. x_0 a = Some xt \<longrightarrow> shape xt = [N, D]"
      and given: "\<not> (x_0 a = None \<and> condition a = None)"
      by simp_all
    from reshaped [OF e one n N xt] obtain d where
      "sample_forward_process ext self a
         = bind_err (squeeze_dims (batch_size a) (x_0 a = None \<and> condition a = None)
                      (torch_tensor [1]) d) (\<lambda>d'. Inr (TorchTensor d'))"
      and "shape d = [T, 1, N, D]"
      by (auto simp: torch_tensor_def)
    then show ?thesis
      using given by (simp add: b squeeze_dims_none_data)
  qed
  have regime_c: "\<exists>d. sample_forward_process ext self a = Inr (TorchTensor d)
                \<and> shape d = [T, nat B, D]"
    if b: "batch_size a = Some (BInt B)" and B: "0 < B"
      and x: "x_0 a = None" and c: "condition a = None"
  proof -
    have e: "extra_batch_size (batch_size a) = Inr (torch_tensor [B])"
      by (simp add: b extra_batch_size_def)
    have el: "elems (torch_tensor [B]) = map int [nat B]"
      using B by (simp add: torch_tensor_def)
    have pos: "0 < prod_list [nat B]"
      using B by simp
    from no_rows_data_batch_size [OF x c, of D] have
      n: "data_batch_size (x_0 a) (condition a) = Inr 1"
      and xt: "\<forall>xt. x_0 a = Some xt \<longrightarrow> shape xt = [1, D]"
      by simp_all
    from reshaped [OF e el pos n _ xt] obtain d where
      "sample_forward_process ext self a
         = bind_err (squeeze_dims (batch_size a) (x_0 a = None \<and> condition a = None)
                      (torch_tensor [B]) d) (\<lambda>d'. Inr (TorchTensor d'))"
      and "shape d = [T, nat B, 1, D]"
      by auto
    then show ?thesis
      by (simp add: b x c squeeze_dims_int_no_data torch_tensor_def)
  qed
  have regime_d: "\<exists>d. sample_forward_process ext self a = Inr (TorchTensor d)
                \<and> shape d = [T, nat B, N, D]"
    if b: "batch_size a = Some (BInt B)" and B: "0 < B"
      and r: "rows_given a N D" and N: "0 < N"
  proof -
    have e: "extra_batch_size (batch_size a) = Inr (torch_tensor [B])"
      by (simp add: b extra_batch_size_def)
    have el: "elems (torch_tensor [B]) = map int [nat B]"
      using B by (simp add: torch_tensor_def)
    have pos: "0 < prod_list [nat B]"
      using B by simp
    from rows_given_data_batch_size [OF r] have
      n: "data_batch_size (x_0 a) (condition a) = Inr N"
      and xt: "\<forall>xt. x_0 a = Some xt \<longrightarrow> shape xt = [N, D]"
      and given: "\<not> (x_0 a = None \<and> condition a = None)"
      by simp_all
    from reshaped [OF e el pos n N xt] obtain d where
      "sample_forward_process ext self a
         = bind_err (squeeze_dims (batch_size a) (x_0 a = None \<and> condition a = None)
                      (torch_tensor [B]) d) (\<lambda>d'. Inr (TorchTensor d'))"
      and "shape d = [T, nat B, N, D]"
      by auto
    then show ?thesis
      using given by (simp add: b squeeze_dims_int_data)
  qed
  show ?thesis
    using regime_a regime_b regime_c regime_d by blast
qed


lemma unit_drift_trajectory:
  assumes "x0 call = TorchTensor x" and "call_t_span call = Some three_steps"
  shows "is_trajectory 3 (x0 call) (unit_drift call)"
  using assms by (simp add: is_trajectory_def unit_drift_def three_steps_def)

lemma initial_state_flow_ode:
  assumes "initial_state flow_ode e n x = Inr v"
  shows "\<exists>t. v = TorchTensor t"
  using assms
  by (cases x)
     (auto simp: initial_state_def flow_ode_def flow_without_solver_def zeros_def
        bind_err_eq_Inr split: if_splits)

lemma flow_ode_trajectory:
  assumes "prepare registry flow_ode (call_args b x c g) = Inr (e, n, unit_drift, call)"
  shows "is_trajectory 3 (x0 call) (unit_drift call)"
proof -
  from assms obtain s v c' where
    init: "initial_state flow_ode e n (x_0 (call_args b x c g)) = Inr v" and
    call: "solver_call flow_ode s v c' (t_span (call_args b x c g))
             (with_grad (call_args b x c g)) e n = Inr (unit_drift, call)"
    by (auto simp: prepare_Inr)
  from initial_state_flow_ode [OF init] obtain t where "v = TorchTensor t"
    by blast
  with solver_call_fields [OF call] have "x0 call = TorchTensor t"
    and "call_t_span call = Some three_steps"
    by (simp_all add: call_args_def)
  then show ?thesis by (rule unit_drift_trajectory)
qed

lemma flow_ode_draws: "0 < k \<Longrightarrow> draws 2 k (gaussian_generator flow_ode k)"
  by (simp add: draws_def flow_ode_def flow_without_solver_def zeros_def)

theorem output_shape_regimes_witness:
  "(\<exists>d. sample_forward_process registry flow_ode (call_args None None None False)
          = Inr (TorchTensor d) \<and> shape d = [3, 2])
   \<and> rows_given (call_args None (Some two_samples) None False) 2 2
   \<and> (\<exists>d. sample_forward_process registry flow_ode
            (call_args None (Some two_samples) None False)
          = Inr (TorchTensor d) \<and> shape d = [3, 2, 2])
   \<and> (\<exists>d. sample_forward_process registry flow_ode
            (call_args (Some (BInt 4)) None None False)
          = Inr (TorchTensor d) \<and> shape d = [3, 4, 2])
   \<and> rows_given (call_args (Some (BInt 4)) (Some two_samples) (Some two_conditions) False)
         2 2
   \<and> (\<exists>d. sample_forward_process registry flow_ode
            (call_args (Some (BInt 4)) (Some two_samples) (Some two_conditions) False)
          = Inr (TorchTensor d) \<and> shape d = [3, 4, 2, 2])"
proof -
  have xs: "x_size flow_ode = XInt (int 2)"
    by (simp add: flow_ode_def flow_without_solver_def)
  have sel: "select_solver registry flow_ode (solver_config (call_args b x c g))
      = Inr (ODESolver unit_drift)" for b x c g
    by (simp add: select_solver_def call_args_def flow_ode_def flow_without_solver_def)
  have iw: "integrates_with flow_ode (ODESolver unit_drift) unit_drift"
    by (simp add: integrates_with_def)
  have pos: "0 < (2 :: nat)"
    by simp
  have r1: "rows_given (call_args None (Some two_samples) None False) 2 2"
    by (simp add: rows_given_def call_args_def two_samples_def)
  have r2: "rows_given
      (call_args (Some (BInt 4)) (Some two_samples) (Some two_conditions) False) 2 2"
    by (simp add: rows_given_def call_args_def two_samples_def two_conditions_def
        shape0_def)
  have a: "\<exists>d. sample_forward_process registry flow_ode (call_args None None None False)
          = Inr (TorchTensor d) \<and> shape d = [3, 2]"
    using output_shape_regimes [where self = flow_ode and ext = registry and T = 3
        and a = "call_args None None None False",
        OF xs pos sel iw flow_ode_trajectory flow_ode_draws]
    by (simp add: call_args_def)
  have b: "\<exists>d. sample_forward_process registry flow_ode
            (call_args None (Some two_samples) None False)
          = Inr (TorchTensor d) \<and> shape d = [3, 2, 2]"
    using output_shape_regimes [where self = flow_ode and ext = registry and T = 3
        and a = "call_args None (Some two_samples) None False" and N = 2,
        OF xs pos sel iw flow_ode_trajectory flow_ode_draws] r1
    by (simp add: call_args_def)
  have c: "\<exists>d. sample_forward_process registry flow_ode
            (call_args (Some (BInt 4)) None None False)
          = Inr (TorchTensor d) \<and> shape d = [3, 4, 2]"
    using output_shape_regimes [where self = flow_ode and ext = registry and T = 3
        and a = "call_args (Some (BInt 4)) None None False" and B = 4,
        OF xs pos sel iw flow_ode_trajectory flow_ode_draws]
    by (simp add: call_args_def)
  have d: "\<exists>d. sample_forward_process registry flow_ode
            (call_args (Some (BInt 4)) (Some two_samples) (Some two_conditions) False)
          = Inr (TorchTensor d) \<and> shape d = [3, 4, 2, 2]"
    using output_shape_regimes [where self = flow_ode and ext = registry and T = 3
        and a = "call_args (Some (BInt 4)) (Some two_samples) (Some two_conditions) False" and B = 4 and N = 2,
        OF xs pos sel iw flow_ode_trajectory flow_ode_draws] r2
    by (simp add: call_args_def)
  show ?thesis
    using a b c d r1 r2 by simp
qed

text \<open>
  Claim C2, at the batch size \<open>(2, 3)\<close> with neither \<^verbatim>\<open>x_0\<close> nor \<^verbatim>\<open>condition\<close>: the
  extra batch size is a tensor of rank 1, so the axis squeezed is axis 2, the second
  extra-batch axis, whose size is 3; nothing is squeezed, and the output keeps the
  data-batch axis of size 1 after the two extra-batch axes, in the shape
  \<open>(3, 2, 3, 1, 2)\<close>.
\<close>

theorem squeeze_after_two_extra_axes:
  "extra_batch_size (Some (BSeq [2, 3])) = Inr (torch_tensor [2, 3])
   \<and> 1 + int (length (shape (torch_tensor [2, 3]))) = 2
   \<and> (\<exists>d. sample_forward_process registry flow_ode
            (call_args (Some (BSeq [2, 3])) None None False) = Inr (TorchTensor d)
          \<and> shape d = [3, 2, 3, 1, 2])"
proof -
  have "sample_forward_process registry flow_ode
          (call_args (Some (BSeq [2, 3])) None None False)
      = Inr (TorchTensor
          \<lparr>shape = [3, 2, 3, 1, 2],
           elems = [0, 0, 0, 0, 0, 0, 0, 0, 0, 0, 0, 0, 1, 1, 1, 1, 1, 1, 1, 1, 1, 1, 1, 1,
                    2, 2, 2, 2, 2, 2, 2, 2, 2, 2, 2, 2]\<rparr>)"
    by code_simp
  then show ?thesis
    by (simp add: extra_batch_size_def torch_tensor_def)
qed

end
